theory Spec2Isabelle
  imports Complex_Main "HOL-Library.Sublist"
begin

section \<open>JavaScript values used by the services\<close>

text \<open>
  A JavaScript number is modelled as a real: the special values NaN and the infinities
  and the rounding of doubles are outside the model. A property that may hold
  \<open>undefined\<close> or \<open>null\<close> is an option. Strings are lists of characters;
  a timestamp (\<open>new Date().toISOString()\<close>) is the reading of a clock, a natural number.
\<close>

definition num_or :: "real option \<Rightarrow> real \<Rightarrow> real" where
  \<comment> \<open>\<open>v || d\<close> for a number \<open>v\<close>: \<open>undefined\<close> and \<open>0\<close> are falsy.\<close>
  "num_or v d = (case v of None \<Rightarrow> d | Some x \<Rightarrow> if x = 0 then d else x)"

definition int_or :: "int option \<Rightarrow> int \<Rightarrow> int" where
  \<comment> \<open>\<open>parseInt(s) || d\<close>: \<open>None\<close> is the NaN of an unset or malformed variable.\<close>
  "int_or v d = (case v of None \<Rightarrow> d | Some x \<Rightarrow> if x = 0 then d else x)"

definition truthy :: "string option \<Rightarrow> bool" where
  \<comment> \<open>truthiness of a string property: \<open>undefined\<close> and the empty string are falsy.\<close>
  "truthy v = (case v of None \<Rightarrow> False | Some s \<Rightarrow> s \<noteq> [])"

definition str_or :: "string option \<Rightarrow> string \<Rightarrow> string" where
  "str_or v d = (case v of None \<Rightarrow> d | Some s \<Rightarrow> if s = [] then d else s)"

definition nth_undef :: "'a option list \<Rightarrow> nat \<Rightarrow> 'a option" where
  \<comment> \<open>\<open>xs[i]\<close>: reading past the end of an array gives \<open>undefined\<close>.\<close>
  "nth_undef xs i = (if i < length xs then xs ! i else None)"

fun join :: "string \<Rightarrow> string list \<Rightarrow> string" where
  "join sep [] = []"
| "join sep [w] = w"
| "join sep (w # v # ws) = w @ sep @ join sep (v # ws)"

fun split_on :: "char \<Rightarrow> string \<Rightarrow> string list" where
  \<comment> \<open>\<open>s.split(c)\<close> for a one-character separator.\<close>
  "split_on sep [] = [[]]"
| "split_on sep (c # cs) =
     (if c = sep then [] # split_on sep cs
      else (case split_on sep cs of [] \<Rightarrow> [[c]] | w # ws \<Rightarrow> (c # w) # ws))"

definition is_space :: "char \<Rightarrow> bool" where
  \<comment> \<open>the ASCII white space removed by \<open>trim\<close>: tab, LF, VT, FF, CR and space.\<close>
  "is_space c = (c \<in> {CHR 0x09, CHR 0x0A, CHR 0x0B, CHR 0x0C, CHR 0x0D, CHR 0x20})"

definition trim :: "string \<Rightarrow> string" where
  "trim s = rev (dropWhile is_space (rev (dropWhile is_space s)))"

fun str_includes :: "string \<Rightarrow> string \<Rightarrow> bool" where
  \<comment> \<open>\<open>s.includes(sub)\<close>\<close>
  "str_includes [] sub = (sub = [])"
| "str_includes (c # cs) sub = (prefix sub (c # cs) \<or> str_includes cs sub)"

definition js_slice_from :: "int \<Rightarrow> 'a list \<Rightarrow> 'a list" where
  \<comment> \<open>\<open>xs.slice(start)\<close>: a negative start counts from the end of the array.\<close>
  "js_slice_from start xs =
     (let len = int (length xs);
          from = (if start < 0 then max (len + start) 0 else min start len)
      in drop (nat from) xs)"

section \<open>Retrieval candidates: \<open>ragPipeline.js\<close>\<close>

record metadata =
  md_title :: "string option"
  md_source :: "string option"
  md_url :: "string option"
  md_published :: "string option"

definition empty_metadata :: metadata where
  "empty_metadata = \<lparr>md_title = None, md_source = None, md_url = None, md_published = None\<rparr>"

text \<open>
  The value returned by \<open>vectorDbService.searchSimilar\<close>: four arrays, aligned by
  index. Nothing in the source forces them to have the same length, and an entry of
  \<open>metadatas\<close>, \<open>distances\<close> or \<open>ids\<close> may be missing.
\<close>

record searchResults =
  documents :: "string list"
  metadatas :: "metadata option list"
  distances :: "real option list"
  ids :: "string option list"

record candidate =
  cand_content :: string
  cand_metadata :: metadata
  cand_similarity :: real
  cand_id :: "string option"

record contextItem =
  ctx_content :: string
  ctx_similarity :: real
  ctx_metadata :: metadata

text \<open>
  The instance of the pipeline. The type of its three numeric fields is a parameter:
  the query functions read fields that hold real numbers; \<open>updateConfig\<close> is stated on
  the fields as the language stores them, where a field can also hold NaN.
\<close>

record 'n ragPipeline =
  topK :: 'n
  similarityThreshold :: 'n
  maxContextLength :: 'n
  isInitialized :: bool

text \<open>The \<open>for\<close> loop of \<open>filterRelevantContext\<close>, with its index and its accumulator.\<close>

function filter_loop :: "searchResults \<Rightarrow> real \<Rightarrow> nat \<Rightarrow> candidate list \<Rightarrow> candidate list" where
  "filter_loop sr threshold i relevant =
     (if i < length (documents sr) then
        (let distance = num_or (nth_undef (distances sr) i) 0;
             similarity = 1 - distance
         in if similarity \<ge> threshold
            then filter_loop sr threshold (i + 1)
                   (relevant @
                    [\<lparr>cand_content = documents sr ! i,
                      cand_metadata = (case nth_undef (metadatas sr) i of
                                         None \<Rightarrow> empty_metadata | Some m \<Rightarrow> m),
                      cand_similarity = similarity,
                      cand_id = nth_undef (ids sr) i\<rparr>])
            else filter_loop sr threshold (i + 1) relevant)
      else relevant)"
  by pat_completeness auto
termination
  by (relation "measure (\<lambda>(sr, threshold, i, relevant). length (documents sr) - i)") auto

declare filter_loop.simps [simp del]

text \<open>
  \<open>relevant.sort((a, b) => b.similarity - a.similarity)\<close>: the sort of an array is
  stable, so the result is the stable sort by descending similarity.
\<close>

definition filterRelevantContext :: "searchResults \<Rightarrow> real \<Rightarrow> candidate list" where
  "filterRelevantContext sr threshold =
     sort_key (\<lambda>c. - cand_similarity c) (filter_loop sr threshold 0 [])"

definition source_lines :: "metadata \<Rightarrow> string list" where
  "source_lines m =
     (if truthy (md_title m) then [''Title: '' @ the (md_title m)] else []) @
     (if truthy (md_source m) then [''Source: '' @ the (md_source m)] else []) @
     (if truthy (md_published m) then [''Published: '' @ the (md_published m)] else [])"

fun prepare_loop :: "candidate list \<Rightarrow> real \<Rightarrow> contextItem list \<Rightarrow> contextItem list" where
  "prepare_loop [] maxLength context = context"
| "prepare_loop (item # rest) maxLength context =
     (let content = cand_content item;
          metadata = cand_metadata item;
          contextItem =
            (if truthy (md_title metadata) \<or> truthy (md_source metadata) \<or> truthy (md_url metadata)
             then content @ [CHR 0x0A, CHR 0x0A] @ ''['' @ join '' | '' (source_lines metadata) @ '']''
             else content)
      in if real (length context) \<ge> maxLength then context
         else prepare_loop rest maxLength
                (context @ [\<lparr>ctx_content = contextItem,
                               ctx_similarity = cand_similarity item,
                               ctx_metadata = metadata\<rparr>]))"

definition prepareContext :: "candidate list \<Rightarrow> real \<Rightarrow> contextItem list" where
  "prepareContext relevantContext maxLength = prepare_loop relevantContext maxLength []"

text \<open>
  A number as \<open>Math.min\<close> and \<open>Math.max\<close> see it, and a value that a field of the new
  configuration can hold: \<open>undefined\<close>, \<open>null\<close>, a number (NaN and the infinities
  included), or a value that is not a number and that the conversion to a number turns
  into NaN (a string that is not numeric, an object). \<open>updateConfig\<close> only compares a
  value with \<open>undefined\<close> and hands it to \<open>Math.min\<close>, which converts it; so a value
  that converts to a number other than NaN (a numeric string, a boolean) stands here as
  that number, and \<open>null\<close> converts to 0.
\<close>

datatype jsnum = NaN | NegInfinity | Finite real | PosInfinity

datatype jsvalue = Undefined | Null | Number jsnum | NonNumeric

definition to_number :: "jsvalue \<Rightarrow> jsnum" where
  "to_number v =
     (case v of Undefined \<Rightarrow> NaN | Null \<Rightarrow> Finite 0 | Number n \<Rightarrow> n | NonNumeric \<Rightarrow> NaN)"

fun js_min :: "jsnum \<Rightarrow> jsnum \<Rightarrow> jsnum" where
  "js_min NaN b = NaN"
| "js_min a NaN = NaN"
| "js_min NegInfinity b = NegInfinity"
| "js_min a NegInfinity = NegInfinity"
| "js_min PosInfinity b = b"
| "js_min a PosInfinity = a"
| "js_min (Finite x) (Finite y) = Finite (min x y)"

fun js_max :: "jsnum \<Rightarrow> jsnum \<Rightarrow> jsnum" where
  "js_max NaN b = NaN"
| "js_max a NaN = NaN"
| "js_max PosInfinity b = PosInfinity"
| "js_max a PosInfinity = PosInfinity"
| "js_max NegInfinity b = b"
| "js_max a NegInfinity = a"
| "js_max (Finite x) (Finite y) = Finite (max x y)"

record newConfig =
  nc_topK :: jsvalue
  nc_similarityThreshold :: jsvalue
  nc_maxContextLength :: jsvalue

definition updateConfig :: "jsnum ragPipeline \<Rightarrow> newConfig \<Rightarrow> jsnum ragPipeline" where
  "updateConfig p nc =
     (let p1 = (if nc_topK nc \<noteq> Undefined
                then p\<lparr>topK := js_max (Finite 1) (js_min (Finite 20) (to_number (nc_topK nc)))\<rparr>
                else p);
          p2 = (if nc_similarityThreshold nc \<noteq> Undefined
                then p1\<lparr>similarityThreshold :=
                         js_max (Finite 0) (js_min (Finite 1) (to_number (nc_similarityThreshold nc)))\<rparr>
                else p1);
          p3 = (if nc_maxContextLength nc \<noteq> Undefined
                then p2\<lparr>maxContextLength :=
                         js_max (Finite 1) (js_min (Finite 10) (to_number (nc_maxContextLength nc)))\<rparr>
                else p2)
      in p3)"

definition in_range :: "real \<Rightarrow> real \<Rightarrow> jsnum \<Rightarrow> bool" where
  "in_range lo hi n = (case n of Finite x \<Rightarrow> lo \<le> x \<and> x \<le> hi | _ \<Rightarrow> False)"

definition config_inv :: "jsnum ragPipeline \<Rightarrow> bool" where
  "config_inv p \<longleftrightarrow>
     in_range 1 20 (topK p) \<and> in_range 0 1 (similarityThreshold p) \<and>
     in_range 1 10 (maxContextLength p)"

definition derived_similarity :: "searchResults \<Rightarrow> nat \<Rightarrow> real" where
  "derived_similarity sr i = 1 - num_or (nth_undef (distances sr) i) 0"

definition candidate_at :: "searchResults \<Rightarrow> nat \<Rightarrow> candidate" where
  "candidate_at sr i =
     \<lparr>cand_content = documents sr ! i,
      cand_metadata = (case nth_undef (metadatas sr) i of None \<Rightarrow> empty_metadata | Some m \<Rightarrow> m),
      cand_similarity = derived_similarity sr i,
      cand_id = nth_undef (ids sr) i\<rparr>"

section \<open>The embedding client: \<open>embeddings.js\<close>\<close>

record embeddingsService =
  emb_apiKey :: "string option"
  emb_isAvailable :: bool
  emb_model :: string
  emb_maxTokens :: nat

record embeddingRequest =
  rq_input :: "string list"
  rq_model :: string

record embeddingResult =
  er_embedding :: "real list"
  er_model :: string
  er_dimensions :: nat

text \<open>
  What the HTTP client can answer. A rejected request carries either a response
  (its status and the two places where the provider puts a message) or an error code
  and a message; an answered one carries a body, whose first embedding may be absent
  or not an array.
\<close>

datatype http_failure =
  HttpStatus nat "string option" "string option"
| NetFailure "string option" string

datatype jina_body =
  Malformed
| Body "real list option" "string option"

definition emb_isServiceAvailable :: "embeddingsService \<Rightarrow> bool" where
  "emb_isServiceAvailable svc \<longleftrightarrow> emb_isAvailable svc \<and> truthy (emb_apiKey svc)"

text \<open>
  The first half of \<open>generateEmbedding\<close>: the checks, and the request data that is
  posted. The parameter \<open>text\<close> is reassigned when the clean text is too long; the
  request is built from \<open>cleanText\<close>.
\<close>

definition build_request :: "embeddingsService \<Rightarrow> string \<Rightarrow> string + embeddingRequest" where
  "build_request svc text =
     (if \<not> emb_isServiceAvailable svc
      then Inl ''Embeddings service not available - missing API key''
      else if text = [] then Inl ''Text input is required and must be a string''
      else
        (let cleanText = trim text in
         if length cleanText = 0 then Inl ''Text input cannot be empty''
         else
           (let text = (if length cleanText > emb_maxTokens svc * 4
                        then take (emb_maxTokens svc * 4) cleanText else text);
                requestData = \<lparr>rq_input = [cleanText], rq_model = ''jina-embeddings-v2-base-en''\<rparr>
            in Inr requestData)))"

definition generateEmbedding ::
  "embeddingsService \<Rightarrow> (embeddingRequest \<Rightarrow> http_failure + jina_body) \<Rightarrow> string
     \<Rightarrow> string + embeddingResult" where
  "generateEmbedding svc post text =
     (case build_request svc text of
        Inl msg \<Rightarrow> Inl msg
      | Inr requestData \<Rightarrow>
          (case post requestData of
             Inl (HttpStatus status m1 m2) \<Rightarrow>
               (let message = str_or m1 (str_or m2 ''Unknown API error'') in
                if status = 401 then Inl ''Invalid Jina API key''
                else if status = 429 then Inl ''Jina API rate limit exceeded''
                else if status \<ge> 500 then Inl ''Jina API server error''
                else Inl (''Jina API error: '' @ message))
           | Inl (NetFailure code msg) \<Rightarrow>
               (if code = Some ''ECONNREFUSED'' \<or> code = Some ''ETIMEDOUT''
                then Inl ''Network error - unable to connect to Jina API''
                else Inl msg)
           | Inr Malformed \<Rightarrow> Inl ''Invalid response format from Jina API''
           | Inr (Body None model) \<Rightarrow> Inl ''Invalid embedding format received''
           | Inr (Body (Some embedding) model) \<Rightarrow>
               (if embedding = [] then Inl ''Invalid embedding format received''
                else Inr \<lparr>er_embedding = embedding,
                          er_model = str_or model (emb_model svc),
                          er_dimensions = length embedding\<rparr>)))"

definition generateQueryEmbedding ::
  "embeddingsService \<Rightarrow> (embeddingRequest \<Rightarrow> http_failure + jina_body) \<Rightarrow> string
     \<Rightarrow> string + embeddingResult" where
  "generateQueryEmbedding svc post query = generateEmbedding svc post query"

section \<open>The generation client: \<open>llm.js\<close>\<close>

record llmService =
  llm_apiKey :: "string option"
  llm_isAvailable :: bool
  llm_model :: string
  llm_maxTokens :: real
  llm_temperature :: real
  llm_topP :: real

record options =
  opt_topK :: "real option"
  opt_filter :: "string option"
  opt_similarityThreshold :: "real option"
  opt_maxContextLength :: "real option"
  opt_temperature :: "real option"
  opt_topP :: "real option"
  opt_maxTokens :: "real option"
  opt_systemMessage :: "string option"

definition no_options :: options where
  "no_options = \<lparr>opt_topK = None, opt_filter = None, opt_similarityThreshold = None,
     opt_maxContextLength = None, opt_temperature = None, opt_topP = None,
     opt_maxTokens = None, opt_systemMessage = None\<rparr>"

record generationConfig =
  gc_temperature :: real
  gc_topP :: real
  gc_maxOutputTokens :: real

record usage =
  promptTokens :: nat
  completionTokens :: nat
  totalTokens :: nat

text \<open>
  A response of the generation client. The object that \<open>generateFallbackResponse\<close>
  builds by hand has a text only.
\<close>

record llmResponse =
  lr_text :: string
  lr_model :: "string option"
  lr_chunks :: "nat option"
  lr_usage :: "usage option"

record chunkData =
  cd_chunk :: string
  cd_fullText :: string
  cd_chunkIndex :: nat
  cd_isComplete :: bool
  cd_error :: bool

definition llm_isServiceAvailable :: "llmService \<Rightarrow> bool" where
  "llm_isServiceAvailable svc \<longleftrightarrow> llm_isAvailable svc \<and> truthy (llm_apiKey svc)"

definition estimateTokens :: "string \<Rightarrow> nat" where
  \<comment> \<open>\<open>Math.ceil(text.length / 4)\<close>\<close>
  "estimateTokens text = (if text = [] then 0 else (length text + 3) div 4)"

definition make_generationConfig :: "llmService \<Rightarrow> options \<Rightarrow> generationConfig" where
  "make_generationConfig svc opts =
     \<lparr>gc_temperature = num_or (opt_temperature opts) (llm_temperature svc),
      gc_topP = num_or (opt_topP opts) (llm_topP svc),
      gc_maxOutputTokens = num_or (opt_maxTokens opts) (llm_maxTokens svc)\<rparr>"

definition llm_error_message :: "string \<Rightarrow> string" where
  \<comment> \<open>the \<open>catch\<close> block of \<open>generateResponse\<close>\<close>
  "llm_error_message msg =
     (if str_includes msg ''API_KEY_INVALID'' then ''Invalid Gemini API key''
      else if str_includes msg ''RATE_LIMIT'' then ''Gemini API rate limit exceeded''
      else if str_includes msg ''SAFETY'' then ''Content blocked by safety filters''
      else ''LLM generation failed: '' @ msg)"

text \<open>
  The provider is a parameter: \<open>generate prompt config\<close> is either the message of
  the error it raises or the text it returns.
\<close>

definition generateResponse ::
  "llmService \<Rightarrow> (string \<Rightarrow> generationConfig \<Rightarrow> string + string) \<Rightarrow> string \<Rightarrow> options
     \<Rightarrow> string + llmResponse" where
  "generateResponse svc generate prompt opts =
     (if \<not> llm_isServiceAvailable svc
      then Inl (llm_error_message ''LLM service not available - missing API key'')
      else if prompt = [] then Inl (llm_error_message ''Prompt is required and must be a string'')
      else
        (let generationConfig = make_generationConfig svc opts in
         case generate prompt generationConfig of
           Inl msg \<Rightarrow> Inl (llm_error_message msg)
         | Inr text \<Rightarrow>
             (if text = [] \<or> length (trim text) = 0
              then Inl (llm_error_message ''Empty response from Gemini API'')
              else Inr \<lparr>lr_text = trim text,
                        lr_model = Some (llm_model svc),
                        lr_chunks = None,
                        lr_usage = Some \<lparr>promptTokens = estimateTokens prompt,
                                         completionTokens = estimateTokens text,
                                         totalTokens = estimateTokens (prompt @ text)\<rparr>\<rparr>)))"

text \<open>
  The \<open>for await\<close> loop of \<open>generateStreamingResponse\<close> over the fragments that the
  provider's stream yields, with the calls of \<open>onChunk\<close> collected in order.
\<close>

fun stream_loop :: "string list \<Rightarrow> string \<Rightarrow> nat \<Rightarrow> chunkData list \<Rightarrow> string \<times> nat \<times> chunkData list" where
  "stream_loop [] fullText chunkCount emitted = (fullText, chunkCount, emitted)"
| "stream_loop (chunkText # rest) fullText chunkCount emitted =
     (if chunkText \<noteq> [] then
        (let fullText = fullText @ chunkText;
             chunkCount = chunkCount + 1
         in stream_loop rest fullText chunkCount
              (emitted @ [\<lparr>cd_chunk = chunkText, cd_fullText = fullText,
                            cd_chunkIndex = chunkCount, cd_isComplete = False,
                            cd_error = False\<rparr>]))
      else stream_loop rest fullText chunkCount emitted)"

text \<open>
  The provider's stream is a parameter: \<open>stream prompt config\<close> is the fragments it
  yields and then, if it breaks, the message of the error (a stream that cannot be
  opened yields nothing and breaks). The result is the calls of \<open>onChunk\<close> and the
  outcome of the promise.
\<close>

definition generateStreamingResponse ::
  "llmService \<Rightarrow> (string \<Rightarrow> generationConfig \<Rightarrow> string list \<times> string option) \<Rightarrow> string \<Rightarrow> options
     \<Rightarrow> chunkData list \<times> (string + llmResponse)" where
  "generateStreamingResponse svc stream prompt opts =
     (if \<not> llm_isServiceAvailable svc
      then ([], Inl (''Streaming generation failed: '' @ ''LLM service not available - missing API key''))
      else
        (let generationConfig = make_generationConfig svc opts;
             (fragments, broken) = stream prompt generationConfig;
             (fullText, chunkCount, emitted) = stream_loop fragments [] 0 []
         in case broken of
              Some msg \<Rightarrow> (emitted, Inl (''Streaming generation failed: '' @ msg))
            | None \<Rightarrow>
                (emitted @ [\<lparr>cd_chunk = [], cd_fullText = fullText, cd_chunkIndex = chunkCount,
                              cd_isComplete = True, cd_error = False\<rparr>],
                 Inr \<lparr>lr_text = trim fullText,
                      lr_model = Some (llm_model svc),
                      lr_chunks = Some chunkCount,
                      lr_usage = Some \<lparr>promptTokens = estimateTokens prompt,
                                       completionTokens = estimateTokens fullText,
                                       totalTokens = estimateTokens (prompt @ fullText)\<rparr>\<rparr>)))"

definition digit :: "nat \<Rightarrow> char" where
  "digit d = ''0123456789'' ! d"

fun string_of_nat :: "nat \<Rightarrow> string" where
  \<comment> \<open>the decimal digits of a number, as the template literal prints it\<close>
  "string_of_nat n =
     (if 10 \<le> n then string_of_nat (n div 10) @ [digit (n mod 10)] else [digit n])"

declare string_of_nat.simps [simp del]

definition default_systemMessage :: string where
  "default_systemMessage =
     ''You are a helpful AI assistant that answers questions based on the provided context. You should:''
     @ [CHR 0x0A, CHR 0x0A]
     @ ''1. Answer questions accurately based on the given context'' @ [CHR 0x0A]
     @ ''2. If the context doesn't contain enough information to answer the question, say so honestly''
     @ [CHR 0x0A]
     @ ''3. Keep your answers concise and relevant'' @ [CHR 0x0A]
     @ ''4. Cite information from the context when appropriate'' @ [CHR 0x0A]
     @ ''5. Be conversational and helpful in tone''"

fun context_blocks :: "nat \<Rightarrow> contextItem list \<Rightarrow> string list" where
  \<comment> \<open>\<open>context.map((ctx, i) => `[${i + 1}] ${ctx.content || ctx}`)\<close>, from index \<open>i\<close> on\<close>
  "context_blocks i [] = []"
| "context_blocks i (ctx # rest) =
     (''['' @ string_of_nat (i + 1) @ ''] '' @
        (if ctx_content ctx = [] then ''[object Object]'' else ctx_content ctx))
     # context_blocks (i + 1) rest"

definition buildRAGPrompt :: "string \<Rightarrow> contextItem list \<Rightarrow> options \<Rightarrow> string" where
  "buildRAGPrompt query context opts =
     (let systemMessage = str_or (opt_systemMessage opts) default_systemMessage;
          contextText = join [CHR 0x0A, CHR 0x0A] (context_blocks 0 context)
      in systemMessage @ [CHR 0x0A, CHR 0x0A] @ ''CONTEXT:'' @ [CHR 0x0A] @ contextText
         @ [CHR 0x0A, CHR 0x0A] @ ''QUESTION: '' @ query @ [CHR 0x0A, CHR 0x0A] @ ''ANSWER:'')"

definition generateRAGResponse ::
  "llmService \<Rightarrow> (string \<Rightarrow> generationConfig \<Rightarrow> string + string) \<Rightarrow> string \<Rightarrow> contextItem list
     \<Rightarrow> options \<Rightarrow> string + llmResponse" where
  "generateRAGResponse svc generate query context opts =
     (let systemPrompt = buildRAGPrompt query context opts
      in generateResponse svc generate systemPrompt opts)"

definition generateStreamingRAGResponse ::
  "llmService \<Rightarrow> (string \<Rightarrow> generationConfig \<Rightarrow> string list \<times> string option) \<Rightarrow> string
     \<Rightarrow> contextItem list \<Rightarrow> options \<Rightarrow> chunkData list \<times> (string + llmResponse)" where
  "generateStreamingRAGResponse svc stream query context opts =
     (let systemPrompt = buildRAGPrompt query context opts
      in generateStreamingResponse svc stream systemPrompt opts)"

section \<open>The pipeline orchestrator: \<open>ragPipeline.js\<close>\<close>

text \<open>
  The collaborators of the pipeline. The vector search gateway is taken at its
  interface: \<open>searchSimilar\<close> catches every error of the index and answers with empty
  arrays, so it is a total function of the query vector, the number of results asked
  for and the filter. The providers behind the embedding and the generation client are
  functions too; what they answer is not constrained.
\<close>

record world =
  axios_post :: "embeddingRequest \<Rightarrow> http_failure + jina_body"
  vectorDbAvailable :: bool
  searchSimilar :: "real list \<Rightarrow> real \<Rightarrow> string option \<Rightarrow> searchResults"
  generateContent :: "string \<Rightarrow> generationConfig \<Rightarrow> string + string"
  generateContentStream :: "string \<Rightarrow> generationConfig \<Rightarrow> string list \<times> string option"

record services =
  embeddings :: embeddingsService
  llm :: llmService
  rag :: "real ragPipeline"

definition new_ragPipeline :: "real option \<Rightarrow> real option \<Rightarrow> real ragPipeline" where
  \<comment> \<open>the constructor, from \<open>config.rag.vectorSearchTopK\<close> and \<open>config.rag.maxContextChunks\<close>\<close>
  "new_ragPipeline vectorSearchTopK maxContextChunks =
     \<lparr>topK = num_or vectorSearchTopK 3,
      similarityThreshold = 0.1,
      maxContextLength = num_or maxContextChunks 5,
      isInitialized = False\<rparr>"

definition isReady :: "services \<Rightarrow> world \<Rightarrow> bool" where
  "isReady sv w \<longleftrightarrow>
     isInitialized (rag sv) \<and> emb_isServiceAvailable (embeddings sv) \<and>
     vectorDbAvailable w \<and> llm_isServiceAvailable (llm sv)"

record step =
  step_no :: nat
  step_name :: string
  step_status :: string

record pipelineMetadata =
  queryEmbeddingDimensions :: nat
  searchResultsCount :: nat
  relevantContextCount :: nat
  finalContextLength :: "nat option"
  responseLength :: "nat option"

text \<open>
  The value of \<open>fallbackResponse\<close> in a failure result: the response object of
  \<open>generateFallbackResponse\<close>, or the string of the \<open>.catch\<close> handler.
\<close>

datatype fallbackValue =
  FallbackObject llmResponse
| FallbackString string

text \<open>The two shapes of the object that \<open>processQuery\<close> returns. Timings are left out.\<close>

datatype queryResult =
  QuerySuccess string string "contextItem list" pipelineMetadata "step list"
| QueryFailure string string fallbackValue

definition qr_success :: "queryResult \<Rightarrow> bool" where
  "qr_success r = (case r of QuerySuccess q a c m s \<Rightarrow> True | QueryFailure q e f \<Rightarrow> False)"

definition fallback_apology :: string where
  "fallback_apology =
     ''I apologize, but I don't have enough information in my knowledge base to answer your question. Could you try rephrasing your question or asking about a different topic?''"

definition technical_apology :: string where
  "technical_apology =
     ''I apologize, but I'm having technical difficulties processing your request right now.''"

definition fallbackPrompt :: "string \<Rightarrow> string" where
  "fallbackPrompt query =
     ''The user asked: '' @ [CHR 0x22] @ query @ [CHR 0x22] @ [CHR 0x0A, CHR 0x0A]
     @ ''I don't have specific information in my knowledge base to answer this question directly. Please provide a helpful response explaining that you don't have enough relevant information, but offer to help in other ways or suggest how they might find the information they need.''
     @ [CHR 0x0A, CHR 0x0A]
     @ ''Be polite, helpful, and acknowledge their question.''"

definition fallback_options :: options where
  \<comment> \<open>\<open>{ maxTokens: 150, temperature: 0.7 }\<close>\<close>
  "fallback_options = no_options\<lparr>opt_maxTokens := Some 150, opt_temperature := Some (7 / 10)\<rparr>"

text \<open>
  \<open>generateFallbackResponse\<close> is an async function: its value is the outcome of the
  promise, \<open>Inl\<close> a rejection. Its own \<open>catch\<close> block turns every error of the
  generation client into a response object built by hand.
\<close>

definition generateFallbackResponse ::
  "llmService \<Rightarrow> (string \<Rightarrow> generationConfig \<Rightarrow> string + string) \<Rightarrow> string
     \<Rightarrow> string + llmResponse" where
  "generateFallbackResponse svc generate query =
     (case generateResponse svc generate (fallbackPrompt query) fallback_options of
        Inr response \<Rightarrow> Inr response
      | Inl msg \<Rightarrow>
          Inr \<lparr>lr_text = fallback_apology, lr_model = None, lr_chunks = None, lr_usage = None\<rparr>)"

definition fallback_answer ::
  "llmService \<Rightarrow> (string \<Rightarrow> generationConfig \<Rightarrow> string + string) \<Rightarrow> string \<Rightarrow> llmResponse" where
  \<comment> \<open>the response of the one call of the generation client, or the apology built by hand\<close>
  "fallback_answer svc generate query =
     (case generateResponse svc generate (fallbackPrompt query) fallback_options of
        Inr response \<Rightarrow> response
      | Inl msg \<Rightarrow>
          \<lparr>lr_text = fallback_apology, lr_model = None, lr_chunks = None, lr_usage = None\<rparr>)"

definition completed_steps :: "string list \<Rightarrow> step list" where
  "completed_steps names =
     map (\<lambda>(i, name). \<lparr>step_no = i + 1, step_name = name, step_status = ''completed''\<rparr>)
       (enumerate 0 names)"

definition processQuery :: "services \<Rightarrow> world \<Rightarrow> string \<Rightarrow> options \<Rightarrow> queryResult" where
  "processQuery sv w query opts =
     (let caught = (\<lambda>msg.
            QueryFailure query msg
              (case generateFallbackResponse (llm sv) (generateContent w) query of
                 Inr response \<Rightarrow> FallbackObject response
               | Inl e \<Rightarrow> FallbackString technical_apology))
      in
      if \<not> isReady sv w
      then caught ''RAG pipeline not ready - please check service availability''
      else
        (case generateQueryEmbedding (embeddings sv) (axios_post w) query of
           Inl msg \<Rightarrow> caught msg
         | Inr queryEmbedding \<Rightarrow>
             (let searchResults =
                    searchSimilar w (er_embedding queryEmbedding)
                      (num_or (opt_topK opts) (topK (rag sv))) (opt_filter opts);
                  relevantContext =
                    filterRelevantContext searchResults
                      (num_or (opt_similarityThreshold opts) (similarityThreshold (rag sv)));
                  metadata =
                    \<lparr>queryEmbeddingDimensions = er_dimensions queryEmbedding,
                     searchResultsCount = length (documents searchResults),
                     relevantContextCount = length relevantContext,
                     finalContextLength = None, responseLength = None\<rparr>
              in
              if length relevantContext = 0 then
                (case generateFallbackResponse (llm sv) (generateContent w) query of
                   Inl msg \<Rightarrow> caught msg
                 | Inr response \<Rightarrow>
                     QuerySuccess query (lr_text response) [] metadata
                       (completed_steps
                          [''embedding_generation'', ''vector_search'', ''context_filtering'']))
              else
                (let contextData =
                       prepareContext relevantContext
                         (num_or (opt_maxContextLength opts) (maxContextLength (rag sv)))
                 in
                 case generateRAGResponse (llm sv) (generateContent w) query contextData opts of
                   Inl msg \<Rightarrow> caught msg
                 | Inr llmResponse \<Rightarrow>
                     QuerySuccess query (lr_text llmResponse) contextData
                       (metadata\<lparr>finalContextLength := Some (length contextData),
                                 responseLength := Some (length (lr_text llmResponse))\<rparr>)
                       (completed_steps
                          [''embedding_generation'', ''vector_search'', ''context_filtering'',
                           ''context_preparation'', ''llm_generation''])))))"

datatype streamResult =
  StreamSuccess string string "contextItem list" "nat option"
| StreamFailure string string

definition streaming_fallbackText :: string where
  "streaming_fallbackText = ''I don't have enough relevant information to answer your question.''"

definition streaming_errorText :: string where
  "streaming_errorText = ''I apologize, but I encountered an error processing your request.''"

text \<open>The loop that streams the fallback text word by word; the pacing delay is left out.\<close>

function word_loop :: "string list \<Rightarrow> nat \<Rightarrow> chunkData list \<Rightarrow> chunkData list" where
  "word_loop words i emitted =
     (if i < length words then
        word_loop words (i + 1)
          (emitted @ [\<lparr>cd_chunk = words ! i @ '' '',
                        cd_fullText = join '' '' (take (i + 1) words),
                        cd_chunkIndex = i, cd_isComplete = False, cd_error = False\<rparr>])
      else emitted)"
  by pat_completeness auto
termination
  by (relation "measure (\<lambda>(words, i, emitted). length words - i)") auto

declare word_loop.simps [simp del]

text \<open>
  \<open>processStreamingQuery\<close>: the calls of \<open>onChunk\<close> in order, and the result. The
  callback is taken not to throw, as the one of \<open>handleSocketMessage\<close>, which only
  emits an event.
\<close>

definition processStreamingQuery ::
  "services \<Rightarrow> world \<Rightarrow> string \<Rightarrow> options \<Rightarrow> chunkData list \<times> streamResult" where
  "processStreamingQuery sv w query opts =
     (let caught = (\<lambda>emitted msg.
            (emitted @ [\<lparr>cd_chunk = streaming_errorText, cd_fullText = streaming_errorText,
                          cd_chunkIndex = 0, cd_isComplete = True, cd_error = True\<rparr>],
             StreamFailure query msg))
      in
      if \<not> isReady sv w then caught [] ''RAG pipeline not ready''
      else
        (case generateQueryEmbedding (embeddings sv) (axios_post w) query of
           Inl msg \<Rightarrow> caught [] msg
         | Inr queryEmbedding \<Rightarrow>
             (let searchResults =
                    searchSimilar w (er_embedding queryEmbedding)
                      (num_or (opt_topK opts) (topK (rag sv))) (opt_filter opts);
                  relevantContext =
                    filterRelevantContext searchResults
                      (num_or (opt_similarityThreshold opts) (similarityThreshold (rag sv)))
              in
              if length relevantContext = 0 then
                (let fallbackText = streaming_fallbackText;
                     words = split_on CHR '' '' fallbackText
                 in (word_loop words 0 [] @
                       [\<lparr>cd_chunk = [], cd_fullText = fallbackText, cd_chunkIndex = length words,
                         cd_isComplete = True, cd_error = False\<rparr>],
                     StreamSuccess query fallbackText [] None))
              else
                (let contextData =
                       prepareContext relevantContext
                         (num_or (opt_maxContextLength opts) (maxContextLength (rag sv)));
                     (emitted, outcome) =
                       generateStreamingRAGResponse (llm sv) (generateContentStream w) query
                         contextData opts
                 in
                 case outcome of
                   Inl msg \<Rightarrow> caught emitted msg
                 | Inr llmResponse \<Rightarrow>
                     (emitted,
                      StreamSuccess query (lr_text llmResponse) contextData
                        (lr_chunks llmResponse))))))"

definition content_chunks :: "chunkData list \<Rightarrow> bool" where
  \<comment> \<open>chunks that are not a completion signal, with strictly increasing indices\<close>
  "content_chunks cs \<longleftrightarrow>
     list_all (\<lambda>c. \<not> cd_isComplete c) cs \<and> sorted_wrt (<) (map cd_chunkIndex cs)"

definition streamed :: "chunkData list \<Rightarrow> bool" where
  \<comment> \<open>content chunks followed by one completion signal\<close>
  "streamed cs \<longleftrightarrow> cs \<noteq> [] \<and> cd_isComplete (last cs) \<and> content_chunks (butlast cs)"

text \<open>Names for what the stages of a query hand on, given the embedding of the query.\<close>

definition search_stage :: "services \<Rightarrow> world \<Rightarrow> options \<Rightarrow> embeddingResult \<Rightarrow> searchResults" where
  "search_stage sv w opts queryEmbedding =
     searchSimilar w (er_embedding queryEmbedding)
       (num_or (opt_topK opts) (topK (rag sv))) (opt_filter opts)"

definition filter_stage :: "services \<Rightarrow> world \<Rightarrow> options \<Rightarrow> embeddingResult \<Rightarrow> candidate list" where
  "filter_stage sv w opts queryEmbedding =
     filterRelevantContext (search_stage sv w opts queryEmbedding)
       (num_or (opt_similarityThreshold opts) (similarityThreshold (rag sv)))"

definition context_stage :: "services \<Rightarrow> world \<Rightarrow> options \<Rightarrow> embeddingResult \<Rightarrow> contextItem list" where
  "context_stage sv w opts queryEmbedding =
     prepareContext (filter_stage sv w opts queryEmbedding)
       (num_or (opt_maxContextLength opts) (maxContextLength (rag sv)))"

definition qr_context :: "queryResult \<Rightarrow> contextItem list" where
  "qr_context r = (case r of QuerySuccess q a c m s \<Rightarrow> c | QueryFailure q e f \<Rightarrow> [])"

definition stream_context :: "streamResult \<Rightarrow> contextItem list" where
  "stream_context r = (case r of StreamSuccess q a c n \<Rightarrow> c | StreamFailure q e \<Rightarrow> [])"

definition echo_post :: "embeddingRequest \<Rightarrow> http_failure + jina_body" where
  \<comment> \<open>a provider that rejects every request and repeats the input it was sent\<close>
  "echo_post rq = Inl (NetFailure None (concat (rq_input rq)))"

section \<open>The session store: \<open>redis.js\<close>\<close>

record message =
  msg_role :: string
  msg_content :: string
  msg_timestamp :: nat

record session =
  ses_id :: string
  ses_createdAt :: nat
  ses_lastActivity :: nat
  ses_messages :: "message list"

text \<open>
  The two kinds of client that \<open>connect\<close> installs: the in-process \<open>Map\<close> and the
  networked one. A value is stored as its JSON text and parsed when read; for a session
  that round trip is the identity, so the store holds sessions.

  Time is the reading of a clock in seconds. In the \<open>Map\<close>, a time to live arms a
  timer whose callback deletes the key: \<open>timers\<close> lists the pending timers with the
  time at which they are due, oldest first; the source never cancels one. The networked
  store keeps one time of expiry per key, in \<open>expiries\<close>, which a write replaces. A
  command sent over the network may fail: \<open>faults\<close> tells for the coming commands, in
  order, whether they fail, and no entry means that the command succeeds.
\<close>

datatype client = MemoryMap | RedisClient

record redisService =
  client :: "client option"
  isConnected :: bool
  entries :: "string \<Rightarrow> session option"
  timers :: "(string \<times> int) list"
  expiries :: "string \<Rightarrow> int option"
  faults :: "bool list"

text \<open>The environment variables read by the store, as \<open>parseInt\<close> reads them.\<close>

record env =
  SESSION_TTL :: "int option"
  MAX_SESSION_MESSAGES :: "int option"

definition isAvailable :: "redisService \<Rightarrow> bool" where
  "isAvailable st \<longleftrightarrow> isConnected st \<and> client st \<noteq> None"

definition command_fails :: "redisService \<Rightarrow> bool \<times> redisService" where
  "command_fails st =
     (case faults st of [] \<Rightarrow> (False, st) | f # fs \<Rightarrow> (f, st\<lparr>faults := fs\<rparr>))"

text \<open>
  \<open>set(key, value, ttlSeconds)\<close>, called when the clock reads \<open>now\<close>; a time to live of
  0 stands for the absent argument too, both are falsy. Every error is caught and
  answered with \<open>false\<close>. The timer of the \<open>Map\<close> is due \<open>ttlSeconds\<close> seconds
  after the call, which is what \<open>setTimeout\<close> does for a delay of up to
  \<open>2\<^sup>3\<^sup>1 - 1\<close> milliseconds; the store is called with 86400 seconds unless
  \<open>SESSION_TTL\<close> says otherwise.
\<close>

definition set_key ::
  "redisService \<Rightarrow> nat \<Rightarrow> string \<Rightarrow> session \<Rightarrow> int \<Rightarrow> redisService \<times> bool" where
  "set_key st now key v ttlSeconds =
     (if \<not> isAvailable st then (st, False)
      else if client st = Some MemoryMap then
        (st\<lparr>entries := (entries st)(key \<mapsto> v),
            timers := (if ttlSeconds \<noteq> 0 then timers st @ [(key, int now + ttlSeconds)]
                       else timers st)\<rparr>,
         True)
      else
        (let (failed, st1) = command_fails st in
         if failed then (st1, False)
         else if ttlSeconds \<noteq> 0 then
           (st1\<lparr>entries := (entries st1)(key \<mapsto> v),
                expiries := (expiries st1)(key \<mapsto> int now + ttlSeconds)\<rparr>, True)
         else
           (st1\<lparr>entries := (entries st1)(key \<mapsto> v),
                expiries := (expiries st1)(key := None)\<rparr>, True)))"

text \<open>
  Time passes until the clock reads \<open>t\<close>. In the \<open>Map\<close>, every timer that is due by
  then runs its callback \<open>this.client.delete(key)\<close> and is gone; in the networked store,
  every key whose time of expiry has come is gone.
\<close>

definition due :: "nat \<Rightarrow> string \<times> int \<Rightarrow> bool" where
  "due t timer = (snd timer \<le> int t)"

definition advance :: "nat \<Rightarrow> redisService \<Rightarrow> redisService" where
  "advance t st =
     (if client st = Some MemoryMap then
        st\<lparr>entries := (\<lambda>key. if key \<in> set (map fst (filter (due t) (timers st))) then None
                             else entries st key),
           timers := filter (\<lambda>timer. \<not> due t timer) (timers st)\<rparr>
      else if client st = Some RedisClient then
        st\<lparr>entries := (\<lambda>key. case expiries st key of
                               None \<Rightarrow> entries st key
                             | Some expiry \<Rightarrow> if expiry \<le> int t then None else entries st key),
           expiries := (\<lambda>key. case expiries st key of
                                None \<Rightarrow> None
                              | Some expiry \<Rightarrow> if expiry \<le> int t then None else Some expiry)\<rparr>
      else st)"

definition get_key :: "redisService \<Rightarrow> string \<Rightarrow> redisService \<times> session option" where
  "get_key st key =
     (if \<not> isAvailable st then (st, None)
      else if client st = Some MemoryMap then (st, entries st key)
      else
        (let (failed, st1) = command_fails st in
         if failed then (st1, None) else (st1, entries st1 key)))"

definition session_ttl :: "env \<Rightarrow> int" where
  "session_ttl e = int_or (SESSION_TTL e) 86400"

definition maxMessages :: "env \<Rightarrow> int" where
  "maxMessages e = int_or (MAX_SESSION_MESSAGES e) 50"

definition session_key :: "string \<Rightarrow> string" where
  "session_key sessionId = ''session:'' @ sessionId"

definition createSession ::
  "env \<Rightarrow> redisService \<Rightarrow> nat \<Rightarrow> string \<Rightarrow> string option \<Rightarrow> redisService \<times> string" where
  \<comment> \<open>\<open>now\<close> is the reading of the clock, \<open>uuid\<close> the identifier drawn by \<open>uuidv4\<close>\<close>
  "createSession e st now uuid sessionId =
     (let id = str_or sessionId (''session:'' @ uuid);
          session = \<lparr>ses_id = id, ses_createdAt = now, ses_lastActivity = now, ses_messages = []\<rparr>;
          ttl = session_ttl e;
          (st1, ok) = set_key st now (session_key id) session ttl
      in (st1, id))"

definition getSession ::
  "env \<Rightarrow> redisService \<Rightarrow> nat \<Rightarrow> string \<Rightarrow> redisService \<times> session option" where
  "getSession e st now sessionId =
     (let (st1, found) = get_key st (session_key sessionId) in
      case found of
        None \<Rightarrow> (st1, None)
      | Some session \<Rightarrow>
          (let session = session\<lparr>ses_lastActivity := now\<rparr>;
               ttl = session_ttl e;
               (st2, ok) = set_key st1 now (session_key sessionId) session ttl
           in (st2, Some session)))"

definition updateSession ::
  "env \<Rightarrow> redisService \<Rightarrow> nat \<Rightarrow> string \<Rightarrow> session \<Rightarrow> redisService \<times> bool" where
  "updateSession e st now sessionId sessionData =
     (let sessionData = sessionData\<lparr>ses_lastActivity := now\<rparr>;
          ttl = session_ttl e;
          (st1, ok) = set_key st now (session_key sessionId) sessionData ttl
      in (st1, True))"

definition addMessage ::
  "env \<Rightarrow> redisService \<Rightarrow> nat \<Rightarrow> string \<Rightarrow> message \<Rightarrow> redisService \<times> bool" where
  "addMessage e st now sessionId msg =
     (let (st1, found) = getSession e st now sessionId in
      case found of
        None \<Rightarrow> (st1, False)
      | Some session \<Rightarrow>
          (let messageWithTimestamp = msg\<lparr>msg_timestamp := now\<rparr>;
               pushed = ses_messages session @ [messageWithTimestamp];
               limited = (if int (length pushed) > maxMessages e
                          then js_slice_from (- maxMessages e) pushed else pushed)
           in updateSession e st1 now sessionId (session\<lparr>ses_messages := limited\<rparr>)))"

text \<open>A run of calls, each with the reading of the clock at that call.\<close>

fun getSession_calls :: "env \<Rightarrow> redisService \<Rightarrow> string \<Rightarrow> nat list \<Rightarrow> redisService" where
  "getSession_calls e st sessionId [] = st"
| "getSession_calls e st sessionId (now # rest) =
     getSession_calls e (fst (getSession e st now sessionId)) sessionId rest"

fun addMessage_calls :: "env \<Rightarrow> redisService \<Rightarrow> (nat \<times> string \<times> message) list \<Rightarrow> redisService" where
  "addMessage_calls e st [] = st"
| "addMessage_calls e st ((now, sessionId, msg) # rest) =
     addMessage_calls e (fst (addMessage e st now sessionId msg)) rest"

definition stored_messages :: "redisService \<Rightarrow> string \<Rightarrow> message list option" where
  "stored_messages st sessionId = map_option ses_messages (entries st (session_key sessionId))"

definition within_cap :: "env \<Rightarrow> redisService \<Rightarrow> bool" where
  \<comment> \<open>no stored session holds more messages than the cap\<close>
  "within_cap e st \<longleftrightarrow> (\<forall>key s. entries st key = Some s \<longrightarrow> int (length (ses_messages s)) \<le> maxMessages e)"

definition reliable :: "redisService \<Rightarrow> bool" where
  \<comment> \<open>the store is available and no coming command fails\<close>
  "reliable st \<longleftrightarrow> isAvailable st \<and> (client st = Some MemoryMap \<or> faults st = [])"

definition stamped :: "nat \<times> string \<times> message \<Rightarrow> message" where
  \<comment> \<open>the message that a call of \<open>addMessage\<close> appends\<close>
  "stamped call = (case call of (now, sessionId, msg) \<Rightarrow> msg\<lparr>msg_timestamp := now\<rparr>)"

definition newest :: "nat \<Rightarrow> 'a list \<Rightarrow> 'a list" where
  \<comment> \<open>the last \<open>n\<close> elements, in their order\<close>
  "newest n xs = drop (length xs - n) xs"

definition same_but_lastActivity :: "session \<Rightarrow> session \<Rightarrow> bool" where
  "same_but_lastActivity s s' \<longleftrightarrow>
     ses_id s' = ses_id s \<and> ses_createdAt s' = ses_createdAt s \<and> ses_messages s' = ses_messages s"

section \<open>The persistent channel: \<open>chatControllers.js\<close>\<close>

record socketData =
  sd_sessionId :: string
  sd_message :: string

record chunkEvent =
  ce_sessionId :: string
  ce_chunk :: string
  ce_fullText :: string
  ce_index :: nat
  ce_isComplete :: bool

text \<open>The events sent to the client, without their timestamps.\<close>

datatype event =
  Typing bool
| Message_chunk chunkEvent
| Message_complete string string
| Error_event string string

definition emit_chunk :: "string \<Rightarrow> chunkData \<Rightarrow> event" where
  \<comment> \<open>the callback that \<open>handleSocketMessage\<close> hands to the pipeline\<close>
  "emit_chunk sessionId chunkData =
     Message_chunk \<lparr>ce_sessionId = sessionId, ce_chunk = cd_chunk chunkData,
                    ce_fullText = cd_fullText chunkData, ce_index = cd_chunkIndex chunkData,
                    ce_isComplete = cd_isComplete chunkData\<rparr>"

definition socket_options :: options where
  "socket_options =
     no_options\<lparr>opt_topK := Some 3, opt_similarityThreshold := Some 0.1,
                opt_maxContextLength := Some 3, opt_temperature := Some 0.7\<rparr>"

definition unavailable_response :: string where
  "unavailable_response =
     ''I apologize, but my knowledge base is not currently available. Please try again in a moment, or contact support if the issue persists.''"

definition destructure_error :: string where
  \<comment> \<open>the message of the TypeError raised when the payload is missing\<close>
  "destructure_error = ''Cannot destructure property 'sessionId' of 'data' as it is undefined.''"

text \<open>
  \<open>handleSocketMessage\<close>: the store after the call and the events emitted on the
  socket, in order. The payload is absent when the client sent none; then the
  destructuring throws and the \<open>catch\<close> block answers. No other statement of the
  \<open>try\<close> block throws: the store and the pipeline catch their own errors. Nothing
  is awaited between the readiness check of the handler and the one of the pipeline, so
  both read the same state.
\<close>

definition handleSocketMessage ::
  "env \<Rightarrow> services \<Rightarrow> world \<Rightarrow> nat \<Rightarrow> string \<Rightarrow> redisService \<Rightarrow> socketData option
     \<Rightarrow> redisService \<times> event list" where
  "handleSocketMessage e sv w now uuid st data =
     (case data of
        None \<Rightarrow> (st, [Typing False, Error_event ''Failed to process message'' destructure_error])
      | Some d \<Rightarrow>
          (let sessionId = sd_sessionId d;
               message = sd_message d;
               (st1, session) = getSession e st now sessionId;
               st2 = (case session of
                        Some s \<Rightarrow> st1
                      | None \<Rightarrow>
                          (let (sa, newSessionId) = createSession e st1 now uuid (Some sessionId);
                               (sb, session) = getSession e sa now newSessionId
                           in sb));
               (st3, added) =
                 addMessage e st2 now sessionId
                   \<lparr>msg_role = ''user'', msg_content = message, msg_timestamp = now\<rparr>
           in
           if \<not> isReady sv w then
             (let fallbackResponse = unavailable_response;
                  (st4, added) =
                    addMessage e st3 now sessionId
                      \<lparr>msg_role = ''assistant'', msg_content = fallbackResponse,
                        msg_timestamp = now\<rparr>
              in (st4, [Typing True, Typing False, Message_complete sessionId fallbackResponse]))
           else
             (let (chunks, result) = processStreamingQuery sv w message socket_options
              in (st3, [Typing True] @ map (emit_chunk sessionId) chunks @ [Typing False]))))"

definition is_terminal :: "event \<Rightarrow> bool" where
  \<comment> \<open>a completion signal or an error event\<close>
  "is_terminal ev =
     (case ev of
        Typing b \<Rightarrow> False
      | Message_chunk c \<Rightarrow> ce_isComplete c
      | Message_complete s r \<Rightarrow> True
      | Error_event m x \<Rightarrow> True)"

fun chunk_indices :: "event list \<Rightarrow> nat list" where
  \<comment> \<open>the indices carried by the message_chunk events, in the order of emission\<close>
  "chunk_indices [] = []"
| "chunk_indices (Message_chunk c # evs) = ce_index c # chunk_indices evs"
| "chunk_indices (ev # evs) = chunk_indices evs"

fun content_indices :: "event list \<Rightarrow> nat list" where
  \<comment> \<open>the indices of the message_chunk events that are not the completion signal\<close>
  "content_indices [] = []"
| "content_indices (Message_chunk c # evs) =
     (if ce_isComplete c then content_indices evs else ce_index c # content_indices evs)"
| "content_indices (ev # evs) = content_indices evs"

section \<open>Concrete inputs\<close>

definition example_results :: searchResults where
  "example_results =
     \<lparr>documents = [''alpha'', ''beta'', ''gamma''],
      metadatas = [None, Some (empty_metadata\<lparr>md_title := Some ''Beta''\<rparr>)],
      distances = [Some (1 / 2), None, Some (19 / 20)],
      ids = [Some ''a'', Some ''b'', Some ''c'']\<rparr>"

definition example_pipeline :: "real ragPipeline" where
  "example_pipeline = (new_ragPipeline None None)\<lparr>isInitialized := True\<rparr>"

text \<open>The fields of that instance as the language stores them.\<close>

definition stored_pipeline :: "jsnum ragPipeline" where
  "stored_pipeline =
     \<lparr>topK = Finite (topK example_pipeline),
      similarityThreshold = Finite (similarityThreshold example_pipeline),
      maxContextLength = Finite (maxContextLength example_pipeline),
      isInitialized = isInitialized example_pipeline\<rparr>"


definition example_embeddings :: embeddingsService where
  "example_embeddings =
     \<lparr>emb_apiKey = Some ''jina-key'', emb_isAvailable = True,
      emb_model = ''jina-embeddings-v2-base-en'', emb_maxTokens = 8192\<rparr>"

definition example_llm :: llmService where
  "example_llm =
     \<lparr>llm_apiKey = Some ''gemini-key'', llm_isAvailable = True, llm_model = ''gemini-1.5-flash'',
      llm_maxTokens = 8192, llm_temperature = 7 / 10, llm_topP = 9 / 10\<rparr>"

definition example_services :: services where
  "example_services =
     \<lparr>embeddings = example_embeddings, llm = example_llm, rag = example_pipeline\<rparr>"

definition no_results :: searchResults where
  "no_results = \<lparr>documents = [], metadatas = [], distances = [], ids = []\<rparr>"

text \<open>
  A world whose index answers with the three example documents when at least three
  results are asked for and with nothing otherwise, and whose generation provider
  answers every prompt.
\<close>

definition example_world :: world where
  "example_world =
     \<lparr>axios_post = (\<lambda>rq. Inr (Body (Some [1, 0]) None)),
      vectorDbAvailable = True,
      searchSimilar = (\<lambda>v k f. if 3 \<le> k then example_results else no_results),
      generateContent = (\<lambda>prompt cfg. Inr ''An answer.''),
      generateContentStream = (\<lambda>prompt cfg. ([''Hel'', '''', ''lo''], None))\<rparr>"

text \<open>Options in which the three retrieval parameters are 0.\<close>

definition zero_options :: options where
  "zero_options =
     no_options\<lparr>opt_topK := Some 0, opt_similarityThreshold := Some 0,
                opt_maxContextLength := Some 0\<rparr>"

text \<open>The same world with a generation provider that fails on every call.\<close>

definition failing_world :: world where
  "failing_world =
     example_world\<lparr>generateContent := (\<lambda>prompt cfg. Inl ''503 Service Unavailable''),
                    generateContentStream := (\<lambda>prompt cfg. ([''Hel'', ''lo''], Some ''socket hang up''))\<rparr>"

text \<open>An in-process store with one session, and a cap of two messages.\<close>

definition example_env :: env where
  "example_env = \<lparr>SESSION_TTL = None, MAX_SESSION_MESSAGES = Some 2\<rparr>"

definition example_message :: "string \<Rightarrow> string \<Rightarrow> nat \<Rightarrow> message" where
  "example_message r c t = \<lparr>msg_role = r, msg_content = c, msg_timestamp = t\<rparr>"

definition example_session :: session where
  "example_session =
     \<lparr>ses_id = ''s1'', ses_createdAt = 1, ses_lastActivity = 1,
      ses_messages = [example_message ''user'' ''hi'' 1]\<rparr>"

definition example_store :: redisService where
  "example_store =
     \<lparr>client = Some MemoryMap, isConnected = True,
      entries = (\<lambda>key. None)(session_key ''s1'' \<mapsto> example_session),
      timers = [(session_key ''s1'', 86400)],
      expiries = (\<lambda>key. None),
      faults = []\<rparr>"

text \<open>
  A session that is created in an empty store when the clock reads 0, read at 1000, and
  read again at 86401, with the default time to live of 86400 seconds: what the first
  and the last read return, and the timers pending after the first read.
\<close>

definition empty_store :: "client \<Rightarrow> redisService" where
  "empty_store c =
     \<lparr>client = Some c, isConnected = True, entries = (\<lambda>key. None), timers = [],
      expiries = (\<lambda>key. None), faults = []\<rparr>"

definition read_at_1000 :: "client \<Rightarrow> redisService \<times> session option" where
  "read_at_1000 c =
     getSession example_env
       (fst (createSession example_env (empty_store c) 0 ''u1'' (Some ''s1''))) 1000 ''s1''"

definition read_at_86401 :: "client \<Rightarrow> session option" where
  "read_at_86401 c =
     snd (getSession example_env (advance 86401 (fst (read_at_1000 c))) 86401 ''s1'')"

section \<open>Properties of the relevance filter\<close>

lemma filter_loop_eq:
  "filter_loop sr t i relevant =
     relevant @ map (candidate_at sr)
       (filter (\<lambda>j. t \<le> derived_similarity sr j) [i..<length (documents sr)])"
proof (induction sr t i relevant rule: filter_loop.induct)
  case (1 sr threshold i relevant)
  show ?case
  proof (cases "i < length (documents sr)")
    case False
    then show ?thesis by (simp add: filter_loop.simps [of sr threshold i relevant])
  next
    case True
    then have split: "[i..<length (documents sr)] = i # [i + 1..<length (documents sr)]"
      by (simp add: upt_conv_Cons)
    show ?thesis
    proof (cases "threshold \<le> derived_similarity sr i")
      case pass: True
      with True "1.IH"(1) show ?thesis
        by (simp add: filter_loop.simps [of sr threshold i relevant] split
            derived_similarity_def candidate_at_def Let_def)
    next
      case fail: False
      with True "1.IH"(2) show ?thesis
        by (simp add: filter_loop.simps [of sr threshold i relevant] split
            derived_similarity_def Let_def)
    qed
  qed
qed

lemma set_filterRelevantContext:
  "set (filterRelevantContext sr t) =
     candidate_at sr ` {j. j < length (documents sr) \<and> t \<le> derived_similarity sr j}"
  by (auto simp: filterRelevantContext_def filter_loop_eq)

lemma sorted_filterRelevantContext:
  "sorted_wrt (\<lambda>a b. cand_similarity a \<ge> cand_similarity b) (filterRelevantContext sr t)"
proof -
  have "sorted (map (\<lambda>c. - cand_similarity c) (filterRelevantContext sr t))"
    by (simp add: filterRelevantContext_def)
  then show ?thesis
    by (simp add: sorted_wrt_map)
qed

text \<open>
  C2. For every search result set and every threshold \<open>t\<close>, each candidate that
  \<open>filterRelevantContext\<close> returns is built from a position \<open>i\<close> of the results, its
  similarity is 1 minus the distance reported there (0 when none is reported), that
  similarity is at least \<open>t\<close>, and the returned list is in descending order of similarity.
\<close>

theorem filterRelevantContext_threshold_sorted:
  "(\<forall>c \<in> set (filterRelevantContext sr t).
      (\<exists>i < length (documents sr).
          c = candidate_at sr i \<and>
          cand_similarity c = 1 - num_or (nth_undef (distances sr) i) 0) \<and>
      t \<le> cand_similarity c) \<and>
   sorted_wrt (\<lambda>a b. cand_similarity a \<ge> cand_similarity b) (filterRelevantContext sr t)"
proof (intro conjI ballI)
  fix c
  assume "c \<in> set (filterRelevantContext sr t)"
  then obtain i where i: "i < length (documents sr)" "t \<le> derived_similarity sr i"
      and c: "c = candidate_at sr i"
    by (auto simp: set_filterRelevantContext)
  have sim: "cand_similarity c = derived_similarity sr i"
    by (simp add: c candidate_at_def)
  show "\<exists>i < length (documents sr).
          c = candidate_at sr i \<and> cand_similarity c = 1 - num_or (nth_undef (distances sr) i) 0"
    using i(1) c sim by (auto simp: derived_similarity_def)
  show "t \<le> cand_similarity c"
    using i(2) sim by simp
next
  show "sorted_wrt (\<lambda>a b. cand_similarity a \<ge> cand_similarity b) (filterRelevantContext sr t)"
    by (rule sorted_filterRelevantContext)
qed

theorem filterRelevantContext_threshold_sorted_witness:
  "map cand_content (filterRelevantContext example_results (1 / 10)) = [''beta'', ''alpha''] \<and>
   map cand_similarity (filterRelevantContext example_results (1 / 10)) = [1, 1 / 2] \<and>
   list_all (\<lambda>c. 1 / 10 \<le> cand_similarity c) (filterRelevantContext example_results (1 / 10)) \<and>
   sorted_wrt (\<lambda>a b. cand_similarity a \<ge> cand_similarity b)
     (filterRelevantContext example_results (1 / 10))"
proof -
  have run: "map cand_content (filterRelevantContext example_results (1 / 10)) = [''beta'', ''alpha''] \<and>
      map cand_similarity (filterRelevantContext example_results (1 / 10)) = [1, 1 / 2]"
    by (simp add: filterRelevantContext_def filter_loop_eq example_results_def
        derived_similarity_def candidate_at_def nth_undef_def num_or_def upt_conv_Cons)
  from filterRelevantContext_threshold_sorted [of example_results "1 / 10"] run
  show ?thesis unfolding list_all_iff by blast
qed








section \<open>Properties of the configuration update\<close>

lemma clamp_in_range:
  "lo \<le> hi \<Longrightarrow> n \<noteq> NaN \<Longrightarrow> in_range lo hi (js_max (Finite lo) (js_min (Finite hi) n))"
  by (cases n) (auto simp: in_range_def)

lemma clamp_NaN: "js_max (Finite lo) (js_min (Finite hi) NaN) = NaN"
  by simp

text \<open>
  A field whose new value is \<open>undefined\<close> is left as it was. A field whose new value is
  \<open>null\<close> or a number other than NaN is clamped into its range, so for such values a
  configuration within the ranges stays within them.
\<close>

lemma updateConfig_preserves_ranges:
  assumes "nc_topK nc = Undefined \<or> to_number (nc_topK nc) \<noteq> NaN"
    and "nc_similarityThreshold nc = Undefined \<or> to_number (nc_similarityThreshold nc) \<noteq> NaN"
    and "nc_maxContextLength nc = Undefined \<or> to_number (nc_maxContextLength nc) \<noteq> NaN"
    and "config_inv p"
  shows "config_inv (updateConfig p nc)"
    and "nc_topK nc = Undefined \<Longrightarrow> topK (updateConfig p nc) = topK p"
    and "nc_similarityThreshold nc = Undefined \<Longrightarrow>
           similarityThreshold (updateConfig p nc) = similarityThreshold p"
    and "nc_maxContextLength nc = Undefined \<Longrightarrow>
           maxContextLength (updateConfig p nc) = maxContextLength p"
  using assms clamp_in_range [of 1 20] clamp_in_range [of 0 1] clamp_in_range [of 1 10]
  by (auto simp: updateConfig_def config_inv_def Let_def)

lemma stored_pipeline_in_range: "config_inv stored_pipeline"
  by (simp add: config_inv_def in_range_def stored_pipeline_def example_pipeline_def
      new_ragPipeline_def num_or_def)

text \<open>
  C10. The invariant does not hold after every call. On the instance built without
  configuration, which is within the ranges, a call whose new \<open>topK\<close> is NaN, or a value
  that is not a number, stores NaN in \<open>topK\<close>: the value is not \<open>undefined\<close>, and
  \<open>Math.min\<close> and \<open>Math.max\<close> answer NaN. The configuration is then outside the range.
\<close>

theorem updateConfig_stores_NaN:
  "config_inv stored_pipeline \<and>
   topK (updateConfig stored_pipeline
     \<lparr>nc_topK = Number NaN, nc_similarityThreshold = Undefined,
      nc_maxContextLength = Undefined\<rparr>) = NaN \<and>
   \<not> config_inv (updateConfig stored_pipeline
     \<lparr>nc_topK = Number NaN, nc_similarityThreshold = Undefined,
      nc_maxContextLength = Undefined\<rparr>) \<and>
   topK (updateConfig stored_pipeline
     \<lparr>nc_topK = NonNumeric, nc_similarityThreshold = Undefined,
      nc_maxContextLength = Undefined\<rparr>) = NaN \<and>
   \<not> config_inv (updateConfig stored_pipeline
     \<lparr>nc_topK = NonNumeric, nc_similarityThreshold = Undefined,
      nc_maxContextLength = Undefined\<rparr>)"
  using stored_pipeline_in_range
  by (simp add: updateConfig_def config_inv_def in_range_def to_number_def Let_def)

section \<open>Properties of the embedding client\<close>

lemma trim_replicate: "\<not> is_space c \<Longrightarrow> trim (replicate n c) = replicate n c"
  by (simp add: trim_def dropWhile_replicate)

lemma build_request_posts_clean_text:
  assumes "emb_isServiceAvailable svc" and "trim text \<noteq> []"
  shows "build_request svc text =
           Inr \<lparr>rq_input = [trim text], rq_model = ''jina-embeddings-v2-base-en''\<rparr>"
proof -
  from assms(2) have "text \<noteq> []"
    by (auto simp: trim_def)
  with assms show ?thesis
    by (simp add: build_request_def Let_def)
qed

text \<open>
  C5. With the configured limit of 8192 tokens (32768 characters), a text of 32769
  characters is posted whole: the request data hold all 32769 characters, and a
  provider that repeats its input repeats all of them. The text cut to the limit is
  assigned to the parameter \<open>text\<close>, which the request data do not read.
\<close>

theorem long_text_is_posted_whole:
  "emb_maxTokens example_embeddings * 4 = 32768 \<and>
   length (replicate 32769 CHR ''a'') = 32769 \<and>
   build_request example_embeddings (replicate 32769 CHR ''a'') =
     Inr \<lparr>rq_input = [replicate 32769 CHR ''a''], rq_model = ''jina-embeddings-v2-base-en''\<rparr> \<and>
   generateEmbedding example_embeddings echo_post (replicate 32769 CHR ''a'') =
     Inl (replicate 32769 CHR ''a'')"
proof -
  have avail: "emb_isServiceAvailable example_embeddings"
    by (simp add: emb_isServiceAvailable_def example_embeddings_def truthy_def)
  have clean: "trim (replicate 32769 CHR ''a'') = replicate 32769 CHR ''a''"
    by (rule trim_replicate) (simp add: is_space_def)
  have request: "build_request example_embeddings (replicate 32769 CHR ''a'') =
      Inr \<lparr>rq_input = [replicate 32769 CHR ''a''], rq_model = ''jina-embeddings-v2-base-en''\<rparr>"
    using build_request_posts_clean_text [OF avail, of "replicate 32769 CHR ''a''"]
    by (simp add: clean)
  have posted: "generateEmbedding example_embeddings echo_post (replicate 32769 CHR ''a'') =
      Inl (replicate 32769 CHR ''a'')"
    by (simp add: generateEmbedding_def request echo_post_def)
  show ?thesis
    using request posted by (simp add: example_embeddings_def)
qed

section \<open>The paths through \<open>processQuery\<close>\<close>

lemma generateFallbackResponse_resolves:
  "generateFallbackResponse svc g q = Inr (fallback_answer svc g q)"
  by (simp add: generateFallbackResponse_def fallback_answer_def split: sum.splits)

lemma generateResponse_text_nonempty:
  "generateResponse svc g p opts = Inr r \<Longrightarrow> lr_text r \<noteq> []"
  by (auto simp: generateResponse_def Let_def split: if_splits sum.splits)

lemma fallback_apology_nonempty: "fallback_apology \<noteq> []"
  by (simp add: fallback_apology_def)

lemma fallback_answer_text_nonempty: "lr_text (fallback_answer svc g q) \<noteq> []"
proof (cases "generateResponse svc g (fallbackPrompt q) fallback_options")
  case (Inl msg)
  then show ?thesis by (simp add: fallback_answer_def fallback_apology_nonempty)
next
  case (Inr r)
  then show ?thesis using generateResponse_text_nonempty [OF Inr]
    by (simp add: fallback_answer_def)
qed

lemma processQuery_not_ready:
  assumes "\<not> isReady sv w"
  shows "processQuery sv w q opts =
           QueryFailure q ''RAG pipeline not ready - please check service availability''
             (FallbackObject (fallback_answer (llm sv) (generateContent w) q))"
  using assms by (simp add: processQuery_def generateFallbackResponse_resolves)

lemma processQuery_embedding_fails:
  assumes "isReady sv w"
    and "generateQueryEmbedding (embeddings sv) (axios_post w) q = Inl msg"
  shows "processQuery sv w q opts =
           QueryFailure q msg (FallbackObject (fallback_answer (llm sv) (generateContent w) q))"
  using assms by (simp add: processQuery_def generateFallbackResponse_resolves)

lemma processQuery_empty_context:
  assumes "isReady sv w"
    and "generateQueryEmbedding (embeddings sv) (axios_post w) q = Inr qe"
    and "filter_stage sv w opts qe = []"
  shows "processQuery sv w q opts =
           QuerySuccess q (lr_text (fallback_answer (llm sv) (generateContent w) q)) []
             \<lparr>queryEmbeddingDimensions = er_dimensions qe,
              searchResultsCount = length (documents (search_stage sv w opts qe)),
              relevantContextCount = 0, finalContextLength = None, responseLength = None\<rparr>
             (completed_steps [''embedding_generation'', ''vector_search'', ''context_filtering''])"
  using assms
  by (simp add: processQuery_def generateFallbackResponse_resolves Let_def
      filter_stage_def search_stage_def)

lemma processQuery_generation_fails:
  assumes "isReady sv w"
    and "generateQueryEmbedding (embeddings sv) (axios_post w) q = Inr qe"
    and "filter_stage sv w opts qe \<noteq> []"
    and "generateRAGResponse (llm sv) (generateContent w) q (context_stage sv w opts qe) opts = Inl msg"
  shows "processQuery sv w q opts =
           QueryFailure q msg (FallbackObject (fallback_answer (llm sv) (generateContent w) q))"
  using assms
  by (simp add: processQuery_def generateFallbackResponse_resolves Let_def
      filter_stage_def search_stage_def context_stage_def)

lemma processQuery_generation_succeeds:
  assumes "isReady sv w"
    and "generateQueryEmbedding (embeddings sv) (axios_post w) q = Inr qe"
    and "filter_stage sv w opts qe \<noteq> []"
    and "generateRAGResponse (llm sv) (generateContent w) q (context_stage sv w opts qe) opts = Inr r"
  shows "processQuery sv w q opts =
           QuerySuccess q (lr_text r) (context_stage sv w opts qe)
             \<lparr>queryEmbeddingDimensions = er_dimensions qe,
              searchResultsCount = length (documents (search_stage sv w opts qe)),
              relevantContextCount = length (filter_stage sv w opts qe),
              finalContextLength = Some (length (context_stage sv w opts qe)),
              responseLength = Some (length (lr_text r))\<rparr>
             (completed_steps
                [''embedding_generation'', ''vector_search'', ''context_filtering'',
                 ''context_preparation'', ''llm_generation''])"
  using assms
  by (simp add: processQuery_def Let_def filter_stage_def search_stage_def context_stage_def)

lemma processQuery_failure_fallback:
  assumes "processQuery sv w q opts = QueryFailure q' err fb"
  shows "q' = q \<and> fb = FallbackObject (fallback_answer (llm sv) (generateContent w) q)"
proof (cases "isReady sv w")
  case False
  from processQuery_not_ready [OF False, of q opts] assms show ?thesis by simp
next
  case True
  show ?thesis
  proof (cases "generateQueryEmbedding (embeddings sv) (axios_post w) q")
    case (Inl msg)
    from processQuery_embedding_fails [OF True Inl, of opts] assms show ?thesis by simp
  next
    case (Inr qe)
    show ?thesis
    proof (cases "filter_stage sv w opts qe = []")
      case empty: True
      from processQuery_empty_context [OF True Inr empty] assms show ?thesis by simp
    next
      case nonempty: False
      show ?thesis
      proof (cases "generateRAGResponse (llm sv) (generateContent w) q
                      (context_stage sv w opts qe) opts")
        case failed: (Inl msg)
        from processQuery_generation_fails [OF True Inr nonempty failed] assms
        show ?thesis by simp
      next
        case ok: (Inr r)
        from processQuery_generation_succeeds [OF True Inr nonempty ok] assms
        show ?thesis by simp
      qed
    qed
  qed
qed

section \<open>The example worlds\<close>

lemma example_ready: "isReady example_services example_world"
  by (simp add: isReady_def example_services_def example_world_def example_pipeline_def
      example_embeddings_def example_llm_def emb_isServiceAvailable_def
      llm_isServiceAvailable_def truthy_def)

lemma failing_ready: "isReady example_services failing_world"
  using example_ready by (simp add: isReady_def failing_world_def)

lemma example_instance_values:
  "topK (rag example_services) = 3"
  "similarityThreshold (rag example_services) = 1 / 10"
  "maxContextLength (rag example_services) = 5"
  by (simp_all add: example_services_def example_pipeline_def new_ragPipeline_def num_or_def)

lemma trim_what: "trim ''what?'' = ''what?''"
  by (simp add: trim_def is_space_def)

lemma example_embedding:
  "generateQueryEmbedding (embeddings example_services) (axios_post example_world) ''what?'' =
     Inr \<lparr>er_embedding = [1, 0], er_model = ''jina-embeddings-v2-base-en'', er_dimensions = 2\<rparr>"
  by (simp add: generateQueryEmbedding_def generateEmbedding_def build_request_def trim_what
      example_services_def example_world_def example_embeddings_def emb_isServiceAvailable_def
      truthy_def str_or_def Let_def)

lemma failing_embedding:
  "generateQueryEmbedding (embeddings example_services) (axios_post failing_world) ''what?'' =
     Inr \<lparr>er_embedding = [1, 0], er_model = ''jina-embeddings-v2-base-en'', er_dimensions = 2\<rparr>"
  using example_embedding by (simp add: failing_world_def)

lemma example_filter:
  "filterRelevantContext example_results (1 / 10) = [candidate_at example_results 1, candidate_at example_results 0]"
  by (simp add: filterRelevantContext_def filter_loop_eq example_results_def
      derived_similarity_def candidate_at_def nth_undef_def num_or_def upt_conv_Cons)

lemma filter_no_results: "filterRelevantContext no_results t = []"
  by (simp add: filterRelevantContext_def filter_loop_eq no_results_def)

lemma example_filter_stage:
  assumes "num_or (opt_topK opts) 3 = 3" and "num_or (opt_similarityThreshold opts) (1 / 10) = 1 / 10"
  shows "filter_stage example_services example_world opts qe =
           [candidate_at example_results 1, candidate_at example_results 0]"
    and "filter_stage example_services failing_world opts qe =
           [candidate_at example_results 1, candidate_at example_results 0]"
proof -
  have k: "num_or (opt_topK opts) (topK (rag example_services)) = 3"
    using assms(1) by (simp only: example_instance_values)
  have t: "num_or (opt_similarityThreshold opts) (similarityThreshold (rag example_services)) = 1 / 10"
    using assms(2) by (simp only: example_instance_values)
  show "filter_stage example_services example_world opts qe =
          [candidate_at example_results 1, candidate_at example_results 0]"
    unfolding filter_stage_def search_stage_def k t
    by (simp add: example_world_def example_filter)
  show "filter_stage example_services failing_world opts qe =
          [candidate_at example_results 1, candidate_at example_results 0]"
    unfolding filter_stage_def search_stage_def k t
    by (simp add: example_world_def failing_world_def example_filter)
qed

lemma example_filter_stage_empty:
  assumes "opt_topK opts = Some 1"
  shows "filter_stage example_services example_world opts qe = []"
  using assms
  by (simp add: filter_stage_def search_stage_def example_world_def num_or_def filter_no_results)

lemma example_context_stage:
  assumes "num_or (opt_topK opts) 3 = 3" and "num_or (opt_similarityThreshold opts) (1 / 10) = 1 / 10"
    and "num_or (opt_maxContextLength opts) 5 \<ge> 2"
  shows "length (context_stage example_services example_world opts qe) = 2"
    and "length (context_stage example_services failing_world opts qe) = 2"
proof -
  have m: "2 \<le> num_or (opt_maxContextLength opts) (maxContextLength (rag example_services))"
    using assms(3) by (simp only: example_instance_values)
  show "length (context_stage example_services example_world opts qe) = 2"
    unfolding context_stage_def example_filter_stage(1) [OF assms(1,2)] prepareContext_def
    using m by (simp add: Let_def)
  show "length (context_stage example_services failing_world opts qe) = 2"
    unfolding context_stage_def example_filter_stage(2) [OF assms(1,2)] prepareContext_def
    using m by (simp add: Let_def)
qed

lemma buildRAGPrompt_nonempty: "buildRAGPrompt q ctx opts \<noteq> []"
  by (simp add: buildRAGPrompt_def Let_def)

lemma fallbackPrompt_nonempty: "fallbackPrompt q \<noteq> []"
  by (simp add: fallbackPrompt_def)

lemma example_llm_available: "llm_isServiceAvailable (llm example_services)"
  by (simp add: example_services_def example_llm_def llm_isServiceAvailable_def truthy_def)

lemma trim_answer: "trim ''An answer.'' = ''An answer.''"
  by (simp add: trim_def is_space_def)

lemma example_generation:
  "\<exists>r. generateRAGResponse (llm example_services) (generateContent example_world) q ctx opts = Inr r \<and>
       lr_text r = ''An answer.''"
  by (simp add: generateRAGResponse_def generateResponse_def Let_def buildRAGPrompt_nonempty
      example_llm_available example_world_def trim_answer)

lemma example_fallback_answer:
  "lr_text (fallback_answer (llm example_services) (generateContent example_world) q) = ''An answer.''"
  by (simp add: fallback_answer_def generateResponse_def Let_def fallbackPrompt_nonempty
      example_llm_available example_world_def trim_answer)

lemma llm_error_message_503:
  "llm_error_message ''503 Service Unavailable'' = ''LLM generation failed: 503 Service Unavailable''"
  by (simp add: llm_error_message_def)

lemma failing_generation:
  "generateRAGResponse (llm example_services) (generateContent failing_world) q ctx opts =
     Inl ''LLM generation failed: 503 Service Unavailable''"
  by (simp add: generateRAGResponse_def generateResponse_def Let_def buildRAGPrompt_nonempty
      example_llm_available failing_world_def llm_error_message_503)

lemma failing_fallback_answer:
  "fallback_answer (llm example_services) (generateContent failing_world) q =
     \<lparr>lr_text = fallback_apology, lr_model = None, lr_chunks = None, lr_usage = None\<rparr>"
  by (simp add: fallback_answer_def generateResponse_def Let_def fallbackPrompt_nonempty
      example_llm_available failing_world_def)

section \<open>Claims about \<open>processQuery\<close>\<close>

text \<open>
  C6. When the pipeline is ready, the query is embedded and the relevance filter leaves
  no candidate, \<open>processQuery\<close> returns a success result with an empty context, and its
  answer is the text of the fallback generation: the text of the generation client on
  the fallback prompt, or the apology of \<open>generateFallbackResponse\<close> when that call
  throws. The answer is not empty.
\<close>

theorem empty_context_gives_fallback_success:
  assumes "isReady sv w"
    and "generateQueryEmbedding (embeddings sv) (axios_post w) q = Inr qe"
    and "filter_stage sv w opts qe = []"
  shows "qr_success (processQuery sv w q opts) \<and>
         qr_context (processQuery sv w q opts) = [] \<and>
         (\<exists>md steps. processQuery sv w q opts =
            QuerySuccess q (lr_text (fallback_answer (llm sv) (generateContent w) q)) [] md steps) \<and>
         lr_text (fallback_answer (llm sv) (generateContent w) q) \<noteq> []"
  using processQuery_empty_context [OF assms] fallback_answer_text_nonempty
  by (simp add: qr_success_def qr_context_def)

theorem empty_context_gives_fallback_success_witness:
  "qr_success (processQuery example_services example_world ''what?''
      (no_options\<lparr>opt_topK := Some 1\<rparr>)) \<and>
   qr_context (processQuery example_services example_world ''what?''
      (no_options\<lparr>opt_topK := Some 1\<rparr>)) = [] \<and>
   filter_stage example_services example_world (no_options\<lparr>opt_topK := Some 1\<rparr>)
     \<lparr>er_embedding = [1, 0], er_model = ''jina-embeddings-v2-base-en'', er_dimensions = 2\<rparr> = []"
proof -
  have empty: "filter_stage example_services example_world (no_options\<lparr>opt_topK := Some 1\<rparr>)
      \<lparr>er_embedding = [1, 0], er_model = ''jina-embeddings-v2-base-en'', er_dimensions = 2\<rparr> = []"
    by (rule example_filter_stage_empty) simp
  from empty_context_gives_fallback_success [OF example_ready example_embedding empty] empty
  show ?thesis by blast
qed

text \<open>
  C3. Whatever stage of \<open>processQuery\<close> throws (the readiness check, the embedding of
  the query, the generation of the answer), the result is a failure result that carries
  the message of the error and, as its fallback response, the outcome of one call of
  the generation client on the fallback prompt: the response of that call, or, when
  that call throws too, the response object with the fixed apology text. Every failure
  result has that form, and the text of its fallback response is not empty.
\<close>

theorem processQuery_failure_carries_fallback_answer:
  "(\<not> isReady sv w \<longrightarrow>
      processQuery sv w q opts =
        QueryFailure q ''RAG pipeline not ready - please check service availability''
          (FallbackObject (fallback_answer (llm sv) (generateContent w) q))) \<and>
   (\<forall>msg. isReady sv w \<and> generateQueryEmbedding (embeddings sv) (axios_post w) q = Inl msg \<longrightarrow>
      processQuery sv w q opts =
        QueryFailure q msg (FallbackObject (fallback_answer (llm sv) (generateContent w) q))) \<and>
   (\<forall>qe msg. isReady sv w \<and> generateQueryEmbedding (embeddings sv) (axios_post w) q = Inr qe \<and>
      filter_stage sv w opts qe \<noteq> [] \<and>
      generateRAGResponse (llm sv) (generateContent w) q (context_stage sv w opts qe) opts = Inl msg \<longrightarrow>
      processQuery sv w q opts =
        QueryFailure q msg (FallbackObject (fallback_answer (llm sv) (generateContent w) q))) \<and>
   (\<forall>q' err fb. processQuery sv w q opts = QueryFailure q' err fb \<longrightarrow>
      q' = q \<and> fb = FallbackObject (fallback_answer (llm sv) (generateContent w) q)) \<and>
   (\<forall>r. generateResponse (llm sv) (generateContent w) (fallbackPrompt q) fallback_options = Inr r \<longrightarrow>
      fallback_answer (llm sv) (generateContent w) q = r) \<and>
   (\<forall>msg. generateResponse (llm sv) (generateContent w) (fallbackPrompt q) fallback_options = Inl msg \<longrightarrow>
      fallback_answer (llm sv) (generateContent w) q =
        \<lparr>lr_text = fallback_apology, lr_model = None, lr_chunks = None, lr_usage = None\<rparr>) \<and>
   lr_text (fallback_answer (llm sv) (generateContent w) q) \<noteq> []"
proof (intro conjI allI impI)
  assume "\<not> isReady sv w"
  then show "processQuery sv w q opts =
      QueryFailure q ''RAG pipeline not ready - please check service availability''
        (FallbackObject (fallback_answer (llm sv) (generateContent w) q))"
    by (rule processQuery_not_ready)
next
  fix msg
  assume "isReady sv w \<and> generateQueryEmbedding (embeddings sv) (axios_post w) q = Inl msg"
  then show "processQuery sv w q opts =
      QueryFailure q msg (FallbackObject (fallback_answer (llm sv) (generateContent w) q))"
    by (simp add: processQuery_embedding_fails)
next
  fix qe msg
  assume "isReady sv w \<and> generateQueryEmbedding (embeddings sv) (axios_post w) q = Inr qe \<and>
      filter_stage sv w opts qe \<noteq> [] \<and>
      generateRAGResponse (llm sv) (generateContent w) q (context_stage sv w opts qe) opts = Inl msg"
  then show "processQuery sv w q opts =
      QueryFailure q msg (FallbackObject (fallback_answer (llm sv) (generateContent w) q))"
    by (simp add: processQuery_generation_fails)
next
  fix q' err fb
  assume failure: "processQuery sv w q opts = QueryFailure q' err fb"
  from processQuery_failure_fallback [OF failure]
  show "q' = q" and "fb = FallbackObject (fallback_answer (llm sv) (generateContent w) q)"
    by simp_all
next
  fix r
  assume "generateResponse (llm sv) (generateContent w) (fallbackPrompt q) fallback_options = Inr r"
  then show "fallback_answer (llm sv) (generateContent w) q = r"
    by (simp add: fallback_answer_def)
next
  fix msg
  assume "generateResponse (llm sv) (generateContent w) (fallbackPrompt q) fallback_options = Inl msg"
  then show "fallback_answer (llm sv) (generateContent w) q =
      \<lparr>lr_text = fallback_apology, lr_model = None, lr_chunks = None, lr_usage = None\<rparr>"
    by (simp add: fallback_answer_def)
next
  show "lr_text (fallback_answer (llm sv) (generateContent w) q) \<noteq> []"
    by (rule fallback_answer_text_nonempty)
qed

theorem processQuery_failure_carries_fallback_answer_witness:
  "processQuery example_services failing_world ''what?'' no_options =
     QueryFailure ''what?'' ''LLM generation failed: 503 Service Unavailable''
       (FallbackObject
          \<lparr>lr_text = fallback_apology, lr_model = None, lr_chunks = None, lr_usage = None\<rparr>)"
proof -
  let ?qe = "\<lparr>er_embedding = [1, 0], er_model = ''jina-embeddings-v2-base-en'', er_dimensions = 2\<rparr>"
  have k: "num_or (opt_topK no_options) 3 = 3"
    and t: "num_or (opt_similarityThreshold no_options) (1 / 10) = 1 / 10"
    by (simp_all add: num_or_def no_options_def)
  have nonempty: "filter_stage example_services failing_world no_options ?qe \<noteq> []"
    by (simp add: example_filter_stage(2) [OF k t])
  from processQuery_failure_carries_fallback_answer
         [of example_services failing_world "''what?''" no_options]
  have "processQuery example_services failing_world ''what?'' no_options =
      QueryFailure ''what?'' ''LLM generation failed: 503 Service Unavailable''
        (FallbackObject (fallback_answer (llm example_services) (generateContent failing_world) ''what?''))"
    using failing_ready failing_embedding nonempty failing_generation by blast
  then show ?thesis
    by (simp only: failing_fallback_answer)
qed

section \<open>Properties of the session store\<close>

lemma session_ttl_nonzero: "session_ttl e \<noteq> 0"
  by (simp add: session_ttl_def int_or_def split: option.splits)

lemma command_fails_entries [simp]:
  "entries (snd (command_fails st)) = entries st"
  "client (snd (command_fails st)) = client st"
  "isConnected (snd (command_fails st)) = isConnected st"
  by (simp_all add: command_fails_def split: list.splits)

lemma set_key_effect:
  "entries (fst (set_key st now key v ttl)) =
     (if snd (set_key st now key v ttl) then (entries st)(key \<mapsto> v) else entries st)"
  by (simp add: set_key_def Let_def split_beta)

lemma set_key_client [simp]:
  "client (fst (set_key st now key v ttl)) = client st"
  "isConnected (fst (set_key st now key v ttl)) = isConnected st"
  by (simp_all add: set_key_def Let_def split_beta)

lemma get_key_effect [simp]:
  "entries (fst (get_key st key)) = entries st"
  "client (fst (get_key st key)) = client st"
  "isConnected (fst (get_key st key)) = isConnected st"
  by (simp_all add: get_key_def Let_def split_beta)

lemma get_key_found: "snd (get_key st key) = Some s \<Longrightarrow> entries st key = Some s"
  by (simp add: get_key_def Let_def split_beta split: if_splits)

lemma getSession_client [simp]:
  "client (fst (getSession e st now sid)) = client st"
  "isConnected (fst (getSession e st now sid)) = isConnected st"
  by (simp_all add: getSession_def Let_def split_beta split: option.splits)

lemma getSession_found:
  assumes "snd (getSession e st now sid) = Some s'"
  shows "\<exists>s. entries st (session_key sid) = Some s \<and> s' = s\<lparr>ses_lastActivity := now\<rparr>"
  using assms
  by (auto simp: getSession_def Let_def split_beta split: option.splits dest: get_key_found)

lemma getSession_none:
  assumes "snd (getSession e st now sid) = None"
  shows "entries (fst (getSession e st now sid)) = entries st"
  using assms
  by (simp add: getSession_def Let_def split_beta split: option.splits)

lemma getSession_entries:
  "entries (fst (getSession e st now sid)) = entries st \<or>
   (\<exists>s. entries st (session_key sid) = Some s \<and>
        entries (fst (getSession e st now sid)) =
          (entries st)(session_key sid \<mapsto> s\<lparr>ses_lastActivity := now\<rparr>))"
proof (cases "snd (get_key st (session_key sid))")
  case None
  then show ?thesis
    by (simp add: getSession_def Let_def split_beta)
next
  case (Some s)
  then have "entries st (session_key sid) = Some s"
    by (rule get_key_found)
  with Some show ?thesis
    by (simp add: getSession_def Let_def split_beta set_key_effect)
qed

lemma updateSession_entries:
  "entries (fst (updateSession e st now sid s)) = entries st \<or>
   entries (fst (updateSession e st now sid s)) =
     (entries st)(session_key sid \<mapsto> s\<lparr>ses_lastActivity := now\<rparr>)"
  by (simp add: updateSession_def Let_def split_beta set_key_effect)

lemma updateSession_client [simp]:
  "client (fst (updateSession e st now sid s)) = client st"
  "isConnected (fst (updateSession e st now sid s)) = isConnected st"
  by (simp_all add: updateSession_def Let_def split_beta)

lemma addMessage_client [simp]:
  "client (fst (addMessage e st now sid msg)) = client st"
  "isConnected (fst (addMessage e st now sid msg)) = isConnected st"
  by (simp_all add: addMessage_def Let_def split_beta split: option.splits)

lemma limited_newest:
  assumes "0 < cap"
  shows "(if int (length xs) > cap then js_slice_from (- cap) xs else xs) = newest (nat cap) xs"
  using assms by (auto simp: js_slice_from_def newest_def Let_def max_def nat_diff_distrib')

lemma length_newest: "length (newest n xs) \<le> n"
  by (simp add: newest_def)

text \<open>One call of \<open>addMessage\<close>, seen from any key of the store.\<close>

lemma addMessage_entry:
  assumes cap: "0 < maxMessages e"
    and after: "entries (fst (addMessage e st now sid msg)) key = Some s'"
  shows "entries st key = Some s' \<or>
         (key = session_key sid \<and>
          (\<exists>s. entries st key = Some s \<and> ses_id s' = ses_id s \<and>
               ses_createdAt s' = ses_createdAt s \<and> ses_lastActivity s' = now \<and>
               (ses_messages s' = ses_messages s \<or>
                ses_messages s' =
                  newest (nat (maxMessages e)) (ses_messages s @ [msg\<lparr>msg_timestamp := now\<rparr>]))))"
proof (cases "snd (getSession e st now sid)")
  case None
  then have "entries (fst (addMessage e st now sid msg)) = entries st"
    by (simp add: addMessage_def Let_def split_beta getSession_none)
  with after show ?thesis by simp
next
  case (Some session)
  then obtain s where s: "entries st (session_key sid) = Some s"
      and session: "session = s\<lparr>ses_lastActivity := now\<rparr>"
    using getSession_found by blast
  let ?st1 = "fst (getSession e st now sid)"
  let ?m = "newest (nat (maxMessages e)) (ses_messages s @ [msg\<lparr>msg_timestamp := now\<rparr>])"
  let ?upd = "session\<lparr>ses_messages := ?m\<rparr>"
  have add: "fst (addMessage e st now sid msg) = fst (updateSession e ?st1 now sid ?upd)"
    using Some cap
    by (simp add: addMessage_def Let_def split_beta session limited_newest [OF cap])
  have first: "entries ?st1 = entries st \<or>
      entries ?st1 = (entries st)(session_key sid \<mapsto> s\<lparr>ses_lastActivity := now\<rparr>)"
    using getSession_entries [of e st now sid] s by auto
  have second: "entries (fst (updateSession e ?st1 now sid ?upd)) = entries ?st1 \<or>
      entries (fst (updateSession e ?st1 now sid ?upd)) =
        (entries ?st1)(session_key sid \<mapsto> ?upd\<lparr>ses_lastActivity := now\<rparr>)"
    by (rule updateSession_entries)
  show ?thesis
  proof (cases "key = session_key sid")
    case False
    with first second after add show ?thesis by auto
  next
    case True
    with first second after add s session show ?thesis by auto
  qed
qed

lemma addMessage_within_cap:
  assumes cap: "0 < maxMessages e" and inv: "within_cap e st"
  shows "within_cap e (fst (addMessage e st now sid msg))"
  unfolding within_cap_def
proof (intro allI impI)
  fix key s'
  assume after: "entries (fst (addMessage e st now sid msg)) key = Some s'"
  from addMessage_entry [OF cap after]
  show "int (length (ses_messages s')) \<le> maxMessages e"
  proof (elim disjE conjE exE)
    assume "entries st key = Some s'"
    with inv show ?thesis by (simp add: within_cap_def)
  next
    fix s
    assume "entries st key = Some s" and "ses_messages s' = ses_messages s"
    with inv show ?thesis by (simp add: within_cap_def)
  next
    fix s
    assume "ses_messages s' =
        newest (nat (maxMessages e)) (ses_messages s @ [msg\<lparr>msg_timestamp := now\<rparr>])"
    then show ?thesis
      using length_newest [of "nat (maxMessages e)" "ses_messages s @ [msg\<lparr>msg_timestamp := now\<rparr>]"] cap
      by simp
  qed
qed

lemma addMessage_calls_within_cap:
  assumes "0 < maxMessages e" and "within_cap e st"
  shows "within_cap e (addMessage_calls e st calls)"
  using assms(2)
proof (induction calls arbitrary: st)
  case Nil
  then show ?case by simp
next
  case (Cons call calls)
  obtain now sid msg where call: "call = (now, sid, msg)"
    by (cases call) auto
  from Cons.prems have "within_cap e (fst (addMessage e st now sid msg))"
    by (rule addMessage_within_cap [OF assms(1)])
  then show ?case
    using Cons.IH by (simp add: call)
qed

lemma reliable_command_fails:
  "reliable st \<Longrightarrow> client st \<noteq> Some MemoryMap \<Longrightarrow> command_fails st = (False, st)"
  by (simp add: reliable_def command_fails_def)

lemma set_key_reliable:
  assumes "reliable st"
  shows "snd (set_key st now key v ttl)"
    and "entries (fst (set_key st now key v ttl)) = (entries st)(key \<mapsto> v)"
    and "reliable (fst (set_key st now key v ttl))"
    and "ttl \<noteq> 0 \<Longrightarrow> client st = Some MemoryMap \<Longrightarrow>
           timers (fst (set_key st now key v ttl)) = timers st @ [(key, int now + ttl)]"
    and "ttl \<noteq> 0 \<Longrightarrow> client st = Some RedisClient \<Longrightarrow>
           expiries (fst (set_key st now key v ttl)) key = Some (int now + ttl)"
  using assms reliable_command_fails [OF assms]
  by (auto simp: set_key_def reliable_def isAvailable_def)

lemma get_key_reliable:
  assumes "reliable st"
  shows "get_key st key = (st, entries st key)"
  using assms reliable_command_fails [OF assms]
  by (auto simp: get_key_def reliable_def)

lemma getSession_reliable:
  assumes rel: "reliable st" and s: "entries st (session_key sid) = Some s"
  shows "snd (getSession e st now sid) = Some (s\<lparr>ses_lastActivity := now\<rparr>)"
    and "entries (fst (getSession e st now sid)) =
           (entries st)(session_key sid \<mapsto> s\<lparr>ses_lastActivity := now\<rparr>)"
    and "reliable (fst (getSession e st now sid))"
    and "client st = Some MemoryMap \<Longrightarrow>
           timers (fst (getSession e st now sid)) =
             timers st @ [(session_key sid, int now + session_ttl e)]"
    and "client st = Some RedisClient \<Longrightarrow>
           expiries (fst (getSession e st now sid)) (session_key sid) =
             Some (int now + session_ttl e)"
  using s set_key_reliable [OF rel, where now = now and key = "session_key sid"
        and v = "s\<lparr>ses_lastActivity := now\<rparr>" and ttl = "session_ttl e"]
    session_ttl_nonzero [of e]
  by (simp_all add: getSession_def get_key_reliable [OF rel] Let_def split_beta)

lemma updateSession_reliable:
  assumes rel: "reliable st"
  shows "entries (fst (updateSession e st now sid s)) =
           (entries st)(session_key sid \<mapsto> s\<lparr>ses_lastActivity := now\<rparr>)"
    and "reliable (fst (updateSession e st now sid s))"
  using set_key_reliable [OF rel, where now = now and key = "session_key sid"
        and v = "s\<lparr>ses_lastActivity := now\<rparr>" and ttl = "session_ttl e"]
  by (simp_all add: updateSession_def Let_def split_beta)

lemma session_updates:
  "s\<lparr>ses_lastActivity := a, ses_messages := m, ses_lastActivity := b\<rparr> =
   s\<lparr>ses_messages := m, ses_lastActivity := b\<rparr>"
  by (cases s) simp

lemma addMessage_reliable:
  assumes cap: "0 < maxMessages e" and rel: "reliable st"
    and s: "entries st (session_key sid) = Some s"
  shows "entries (fst (addMessage e st now sid msg)) =
           (entries st)(session_key sid \<mapsto>
              s\<lparr>ses_messages := newest (nat (maxMessages e))
                                  (ses_messages s @ [msg\<lparr>msg_timestamp := now\<rparr>]),
                ses_lastActivity := now\<rparr>)"
    and "reliable (fst (addMessage e st now sid msg))"
    and "snd (addMessage e st now sid msg)"
proof -
  let ?st1 = "fst (getSession e st now sid)"
  let ?m = "newest (nat (maxMessages e)) (ses_messages s @ [msg\<lparr>msg_timestamp := now\<rparr>])"
  let ?upd = "s\<lparr>ses_lastActivity := now, ses_messages := ?m\<rparr>"
  have add: "addMessage e st now sid msg = updateSession e ?st1 now sid ?upd"
    using getSession_reliable(1) [OF rel s, of e now]
    by (simp add: addMessage_def Let_def split_beta limited_newest [OF cap])
  have rel1: "reliable ?st1"
    by (rule getSession_reliable(3) [OF rel s])
  have "entries (fst (addMessage e st now sid msg)) =
      (entries ?st1)(session_key sid \<mapsto> ?upd\<lparr>ses_lastActivity := now\<rparr>)"
    by (simp only: add updateSession_reliable(1) [OF rel1])
  then show "entries (fst (addMessage e st now sid msg)) =
      (entries st)(session_key sid \<mapsto> s\<lparr>ses_messages := ?m, ses_lastActivity := now\<rparr>)"
    by (simp add: getSession_reliable(2) [OF rel s] session_updates)
  show "reliable (fst (addMessage e st now sid msg))"
    by (simp only: add updateSession_reliable(2) [OF rel1])
  show "snd (addMessage e st now sid msg)"
    by (simp add: add updateSession_def Let_def split_beta)
qed

lemma newest_newest_append: "newest n (newest n xs @ ys) = newest n (xs @ ys)"
proof (cases "n \<le> length xs")
  case True
  then have "length xs + length ys - (length xs - n + n) + (length xs - n) =
      length xs + length ys - n"
    by arith
  with True show ?thesis
    by (simp add: newest_def)
next
  case False
  then show ?thesis
    by (simp add: newest_def)
qed

lemma addMessage_calls_reliable:
  assumes cap: "0 < maxMessages e"
  shows "reliable st \<Longrightarrow> entries st (session_key sid) = Some s \<Longrightarrow>
         int (length (ses_messages s)) \<le> maxMessages e \<Longrightarrow>
         \<forall>call \<in> set calls. fst (snd call) = sid \<Longrightarrow>
         stored_messages (addMessage_calls e st calls) sid =
           Some (newest (nat (maxMessages e)) (ses_messages s @ map stamped calls))"
proof (induction calls arbitrary: st s)
  case Nil
  then show ?case
    by (simp add: stored_messages_def newest_def)
next
  case (Cons call calls)
  obtain now msg where call: "call = (now, sid, msg)"
    using Cons.prems(4) by (cases call) auto
  let ?st1 = "fst (addMessage e st now sid msg)"
  let ?s1 = "s\<lparr>ses_messages := newest (nat (maxMessages e))
                                (ses_messages s @ [msg\<lparr>msg_timestamp := now\<rparr>]),
              ses_lastActivity := now\<rparr>"
  have rel1: "reliable ?st1"
    by (rule addMessage_reliable(2) [OF cap Cons.prems(1,2)])
  have s1: "entries ?st1 (session_key sid) = Some ?s1"
    by (simp add: addMessage_reliable(1) [OF cap Cons.prems(1,2)])
  have len: "int (length (ses_messages ?s1)) \<le> maxMessages e"
    using length_newest [of "nat (maxMessages e)" "ses_messages s @ [msg\<lparr>msg_timestamp := now\<rparr>]"] cap
    by simp
  have rest: "\<forall>call \<in> set calls. fst (snd call) = sid"
    using Cons.prems(4) by simp
  from Cons.IH [OF rel1 s1 len rest]
  show ?case
    by (simp add: call stamped_def newest_newest_append)
qed

lemma createSession_within_cap:
  assumes cap: "0 < maxMessages e" and inv: "within_cap e st"
  shows "within_cap e (fst (createSession e st now uuid sessionId))"
proof -
  let ?id = "str_or sessionId (''session:'' @ uuid)"
  let ?new = "\<lparr>ses_id = ?id, ses_createdAt = now, ses_lastActivity = now, ses_messages = []\<rparr>"
  have "entries (fst (createSession e st now uuid sessionId)) = entries st \<or>
      entries (fst (createSession e st now uuid sessionId)) =
        (entries st)(session_key ?id \<mapsto> ?new)"
    by (simp add: createSession_def Let_def split_beta set_key_effect)
  then show ?thesis
  proof
    assume "entries (fst (createSession e st now uuid sessionId)) = entries st"
    with inv show ?thesis by (simp add: within_cap_def)
  next
    assume new: "entries (fst (createSession e st now uuid sessionId)) =
        (entries st)(session_key ?id \<mapsto> ?new)"
    show ?thesis
      unfolding within_cap_def
    proof (intro allI impI)
      fix key s
      assume "entries (fst (createSession e st now uuid sessionId)) key = Some s"
      then have "s = ?new \<or> entries st key = Some s"
        by (auto simp: new split: if_splits)
      then show "int (length (ses_messages s)) \<le> maxMessages e"
        using inv cap by (auto simp: within_cap_def)
    qed
  qed
qed

text \<open>What a run of \<open>getSession\<close> calls can change in the store.\<close>

lemma same_but_lastActivity_refl [simp]: "same_but_lastActivity s s"
  by (simp add: same_but_lastActivity_def)

lemma getSession_same:
  "rel_option same_but_lastActivity (entries st key) (entries (fst (getSession e st now sid)) key)"
proof -
  have refl: "rel_option same_but_lastActivity x x" for x
    by (cases x) simp_all
  from getSession_entries [of e st now sid] show ?thesis
  proof
    assume "entries (fst (getSession e st now sid)) = entries st"
    then show ?thesis by (simp add: refl)
  next
    assume "\<exists>s. entries st (session_key sid) = Some s \<and>
        entries (fst (getSession e st now sid)) =
          (entries st)(session_key sid \<mapsto> s\<lparr>ses_lastActivity := now\<rparr>)"
    then show ?thesis
      by (auto simp: refl same_but_lastActivity_def)
  qed
qed

lemma same_but_lastActivity_trans:
  "rel_option same_but_lastActivity x y \<Longrightarrow> rel_option same_but_lastActivity y z \<Longrightarrow>
   rel_option same_but_lastActivity x z"
  by (cases x; cases y; cases z) (auto simp: same_but_lastActivity_def)

lemma getSession_calls_same:
  "rel_option same_but_lastActivity (entries st key) (entries (getSession_calls e st sid nows) key)"
proof (induction nows arbitrary: st)
  case Nil
  show ?case by (cases "entries st key") simp_all
next
  case (Cons now nows)
  from getSession_same [of st key e now sid] Cons.IH [of "fst (getSession e st now sid)"]
  show ?case
    by (simp add: same_but_lastActivity_trans)
qed

lemma getSession_calls_messages:
  "stored_messages (getSession_calls e st sid nows) sid' = stored_messages st sid'"
  using getSession_calls_same [of st "session_key sid'" e sid nows]
  by (cases "entries st (session_key sid')";
      cases "entries (getSession_calls e st sid nows) (session_key sid')")
     (auto simp: stored_messages_def same_but_lastActivity_def)

section \<open>Claims about the session store\<close>

text \<open>
  C4. Let the cap \<open>parseInt(MAX_SESSION_MESSAGES) || 50\<close> be positive. Whatever the
  client of the store and whichever commands fail, a call of \<open>addMessage\<close> leaves every
  stored session as it was, except the session it names: there it keeps the message
  list, or replaces it by the newest messages, at most as many as the cap, of the old
  list followed by the new message. So a store in which no session exceeds the cap stays
  so along every sequence of calls, and when a session is created. In a store that does not fail, a sequence of calls
  on one session that was within the cap leaves exactly the newest messages of the old
  list followed by the appended ones, in the order of insertion.
\<close>

theorem addMessage_respects_cap:
  assumes cap: "0 < maxMessages e"
  shows "(within_cap e st \<longrightarrow> within_cap e (addMessage_calls e st calls)) \<and>
         (within_cap e st \<longrightarrow> within_cap e (fst (createSession e st now uuid newId))) \<and>
         (\<forall>key s'. entries (fst (addMessage e st now sid msg)) key = Some s' \<longrightarrow>
            entries st key = Some s' \<or>
            (key = session_key sid \<and>
             (\<exists>s. entries st key = Some s \<and>
                  (ses_messages s' = ses_messages s \<or>
                   ses_messages s' =
                     newest (nat (maxMessages e))
                       (ses_messages s @ [msg\<lparr>msg_timestamp := now\<rparr>]))))) \<and>
         (\<forall>s. reliable st \<and> entries st (session_key sid) = Some s \<and>
              int (length (ses_messages s)) \<le> maxMessages e \<and>
              (\<forall>call \<in> set calls. fst (snd call) = sid) \<longrightarrow>
            stored_messages (addMessage_calls e st calls) sid =
              Some (newest (nat (maxMessages e)) (ses_messages s @ map stamped calls)) \<and>
            int (length (newest (nat (maxMessages e)) (ses_messages s @ map stamped calls)))
              \<le> maxMessages e)"
proof (intro conjI allI impI)
  assume "within_cap e st"
  then show "within_cap e (addMessage_calls e st calls)"
    by (rule addMessage_calls_within_cap [OF cap])
next
  assume "within_cap e st"
  then show "within_cap e (fst (createSession e st now uuid newId))"
    by (rule createSession_within_cap [OF cap])
next
  fix key s'
  assume "entries (fst (addMessage e st now sid msg)) key = Some s'"
  from addMessage_entry [OF cap this]
  show "entries st key = Some s' \<or>
        (key = session_key sid \<and>
         (\<exists>s. entries st key = Some s \<and>
              (ses_messages s' = ses_messages s \<or>
               ses_messages s' =
                 newest (nat (maxMessages e)) (ses_messages s @ [msg\<lparr>msg_timestamp := now\<rparr>]))))"
    by blast
next
  fix s
  assume h: "reliable st \<and> entries st (session_key sid) = Some s \<and>
      int (length (ses_messages s)) \<le> maxMessages e \<and>
      (\<forall>call \<in> set calls. fst (snd call) = sid)"
  then show "stored_messages (addMessage_calls e st calls) sid =
      Some (newest (nat (maxMessages e)) (ses_messages s @ map stamped calls))"
    using addMessage_calls_reliable [OF cap, of st sid s calls] by blast
  show "int (length (newest (nat (maxMessages e)) (ses_messages s @ map stamped calls)))
      \<le> maxMessages e"
    using length_newest [of "nat (maxMessages e)" "ses_messages s @ map stamped calls"] cap
    by simp
qed

lemma example_store_reliable: "reliable example_store"
  by (simp add: reliable_def isAvailable_def example_store_def)

lemma example_store_session: "entries example_store (session_key ''s1'') = Some example_session"
  by (simp add: example_store_def)

lemma example_cap: "maxMessages example_env = 2"
  by (simp add: maxMessages_def example_env_def int_or_def)

theorem addMessage_respects_cap_witness:
  "0 < maxMessages example_env \<and>
   stored_messages
     (addMessage_calls example_env example_store
        [(2, ''s1'', example_message ''user'' ''a'' 0),
         (3, ''s1'', example_message ''assistant'' ''b'' 0)]) ''s1'' =
     Some [example_message ''user'' ''a'' 2, example_message ''assistant'' ''b'' 3]"
proof -
  let ?calls = "[(2, ''s1'', example_message ''user'' ''a'' 0),
                 (3, ''s1'', example_message ''assistant'' ''b'' 0)]"
  have cap: "0 < maxMessages example_env"
    by (simp add: example_cap)
  have len: "int (length (ses_messages example_session)) \<le> maxMessages example_env"
    by (simp add: example_cap example_session_def)
  have calls: "\<forall>call \<in> set ?calls. fst (snd call) = ''s1''"
    by simp
  have hyp: "reliable example_store \<and>
      entries example_store (session_key ''s1'') = Some example_session \<and>
      int (length (ses_messages example_session)) \<le> maxMessages example_env \<and>
      (\<forall>call \<in> set ?calls. fst (snd call) = ''s1'')"
    using example_store_reliable example_store_session len calls by (intro conjI)
  note all = addMessage_respects_cap [OF cap, where st = example_store and calls = ?calls
      and sid = "''s1''"]
  from all [THEN conjunct2, THEN conjunct2, THEN conjunct2, THEN spec, THEN mp, OF hyp,
      THEN conjunct1]
  have run: "stored_messages (addMessage_calls example_env example_store ?calls) ''s1'' =
      Some (newest (nat (maxMessages example_env))
              (ses_messages example_session @ map stamped ?calls))" .
  have val: "newest (nat (maxMessages example_env))
      (ses_messages example_session @ map stamped ?calls) =
      [example_message ''user'' ''a'' 2, example_message ''assistant'' ''b'' 3]"
    by (simp add: example_cap newest_def example_session_def stamped_def example_message_def)
  show ?thesis
    using cap run by (simp only: val simp_thms)
qed

text \<open>
  A run of \<open>getSession\<close> calls, whatever the client of the store and whichever
  commands fail, leaves every stored session with its identifier, its creation time and
  its message list: only \<open>lastActivity\<close> can differ. A call that returns a session
  returns the stored one with \<open>lastActivity\<close> set to the time of the call. In a store
  that does not fail, a call on an existing session writes that session back with the
  configured time to live: the networked store replaces the time of expiry of the key,
  the in-process store arms one more timer for the key and leaves the earlier ones
  pending.
\<close>

lemma getSession_changes_lastActivity_only:
  "(\<forall>key. rel_option same_but_lastActivity (entries st key)
             (entries (getSession_calls e st sid nows) key)) \<and>
   (\<forall>sid'. stored_messages (getSession_calls e st sid nows) sid' = stored_messages st sid') \<and>
   (\<forall>s'. snd (getSession e st now sid) = Some s' \<longrightarrow>
      (\<exists>s. entries st (session_key sid) = Some s \<and> s' = s\<lparr>ses_lastActivity := now\<rparr>)) \<and>
   (\<forall>s. reliable st \<and> entries st (session_key sid) = Some s \<longrightarrow>
      snd (getSession e st now sid) = Some (s\<lparr>ses_lastActivity := now\<rparr>) \<and>
      entries (fst (getSession e st now sid)) =
        (entries st)(session_key sid \<mapsto> s\<lparr>ses_lastActivity := now\<rparr>) \<and>
      (client st = Some MemoryMap \<longrightarrow>
         timers (fst (getSession e st now sid)) =
           timers st @ [(session_key sid, int now + session_ttl e)]) \<and>
      (client st = Some RedisClient \<longrightarrow>
         expiries (fst (getSession e st now sid)) (session_key sid) =
           Some (int now + session_ttl e)))"
proof (intro conjI allI impI)
  fix key
  show "rel_option same_but_lastActivity (entries st key)
          (entries (getSession_calls e st sid nows) key)"
    by (rule getSession_calls_same)
next
  fix sid'
  show "stored_messages (getSession_calls e st sid nows) sid' = stored_messages st sid'"
    by (rule getSession_calls_messages)
next
  fix s'
  assume "snd (getSession e st now sid) = Some s'"
  then show "\<exists>s. entries st (session_key sid) = Some s \<and> s' = s\<lparr>ses_lastActivity := now\<rparr>"
    by (rule getSession_found)
next
  fix s
  assume h: "reliable st \<and> entries st (session_key sid) = Some s"
  then have rel: "reliable st" and s: "entries st (session_key sid) = Some s"
    by simp_all
  show "snd (getSession e st now sid) = Some (s\<lparr>ses_lastActivity := now\<rparr>)"
    by (rule getSession_reliable(1) [OF rel s])
  show "entries (fst (getSession e st now sid)) =
      (entries st)(session_key sid \<mapsto> s\<lparr>ses_lastActivity := now\<rparr>)"
    by (rule getSession_reliable(2) [OF rel s])
  show "timers (fst (getSession e st now sid)) =
           timers st @ [(session_key sid, int now + session_ttl e)]"
    if "client st = Some MemoryMap"
    using that by (rule getSession_reliable(4) [OF rel s])
  show "expiries (fst (getSession e st now sid)) (session_key sid) =
           Some (int now + session_ttl e)"
    if "client st = Some RedisClient"
    using that by (rule getSession_reliable(5) [OF rel s])
qed

lemma example_ttl: "session_ttl example_env = 86400"
  by (simp add: session_ttl_def example_env_def int_or_def)

lemma created_map:
  "fst (createSession example_env (empty_store MemoryMap) 0 ''u1'' (Some ''s1'')) =
     \<lparr>client = Some MemoryMap, isConnected = True,
      entries = (\<lambda>key. None)(session_key ''s1'' \<mapsto>
        \<lparr>ses_id = ''s1'', ses_createdAt = 0, ses_lastActivity = 0, ses_messages = []\<rparr>),
      timers = [(session_key ''s1'', 86400)],
      expiries = (\<lambda>key. None), faults = []\<rparr>"
  by (simp add: createSession_def set_key_def empty_store_def isAvailable_def str_or_def
      example_ttl Let_def)

lemma created_redis:
  "fst (createSession example_env (empty_store RedisClient) 0 ''u1'' (Some ''s1'')) =
     \<lparr>client = Some RedisClient, isConnected = True,
      entries = (\<lambda>key. None)(session_key ''s1'' \<mapsto>
        \<lparr>ses_id = ''s1'', ses_createdAt = 0, ses_lastActivity = 0, ses_messages = []\<rparr>),
      timers = [],
      expiries = (\<lambda>key. None)(session_key ''s1'' \<mapsto> 86400), faults = []\<rparr>"
  by (simp add: createSession_def set_key_def command_fails_def empty_store_def isAvailable_def
      str_or_def example_ttl Let_def)

lemma read_at_1000_map:
  "snd (read_at_1000 MemoryMap) =
     Some \<lparr>ses_id = ''s1'', ses_createdAt = 0, ses_lastActivity = 1000, ses_messages = []\<rparr>"
  "timers (fst (read_at_1000 MemoryMap)) = [(session_key ''s1'', 86400), (session_key ''s1'', 87400)]"
  "client (fst (read_at_1000 MemoryMap)) = Some MemoryMap"
  "isConnected (fst (read_at_1000 MemoryMap))"
  by (simp_all add: read_at_1000_def created_map getSession_def get_key_def set_key_def
      isAvailable_def example_ttl Let_def)

lemma read_at_1000_redis:
  "snd (read_at_1000 RedisClient) =
     Some \<lparr>ses_id = ''s1'', ses_createdAt = 0, ses_lastActivity = 1000, ses_messages = []\<rparr>"
  "expiries (fst (read_at_1000 RedisClient)) (session_key ''s1'') = Some 87400"
  "entries (fst (read_at_1000 RedisClient)) (session_key ''s1'') =
     Some \<lparr>ses_id = ''s1'', ses_createdAt = 0, ses_lastActivity = 1000, ses_messages = []\<rparr>"
  "client (fst (read_at_1000 RedisClient)) = Some RedisClient"
  "isConnected (fst (read_at_1000 RedisClient))"
  "faults (fst (read_at_1000 RedisClient)) = []"
  by (simp_all add: read_at_1000_def created_redis getSession_def get_key_def set_key_def
      command_fails_def isAvailable_def example_ttl Let_def)

lemma read_at_86401_map: "read_at_86401 MemoryMap = None"
proof -
  let ?st = "advance 86401 (fst (read_at_1000 MemoryMap))"
  have "entries ?st (session_key ''s1'') = None"
    by (simp add: advance_def read_at_1000_map due_def)
  moreover have "client ?st = Some MemoryMap" and "isConnected ?st"
    by (simp_all add: advance_def read_at_1000_map)
  ultimately show ?thesis
    by (simp add: read_at_86401_def getSession_def get_key_def isAvailable_def Let_def)
qed

lemma read_at_86401_redis:
  "read_at_86401 RedisClient =
     Some \<lparr>ses_id = ''s1'', ses_createdAt = 0, ses_lastActivity = 86401, ses_messages = []\<rparr>"
proof -
  let ?st = "advance 86401 (fst (read_at_1000 RedisClient))"
  have "entries ?st (session_key ''s1'') =
      Some \<lparr>ses_id = ''s1'', ses_createdAt = 0, ses_lastActivity = 1000, ses_messages = []\<rparr>"
    by (simp add: advance_def read_at_1000_redis)
  moreover have "client ?st = Some RedisClient" and "isConnected ?st" and "faults ?st = []"
    by (simp_all add: advance_def read_at_1000_redis)
  ultimately show ?thesis
    by (simp add: read_at_86401_def getSession_def get_key_def set_key_def command_fails_def
        isAvailable_def Let_def split_beta)
qed

text \<open>
  C7. The message list is left unchanged by \<open>getSession\<close>, as the lemma above shows
  for both stores. The time to live is refreshed in the networked store only. With the
  in-process store, a session created at time 0 with a time to live of 86400 seconds and
  read at time 1000 comes back with \<open>lastActivity\<close> 1000, and a second timer, due at
  87400, is armed beside the first, due at 86400. The first timer still fires: at time
  86401 the session is gone, where the networked store, whose expiry the read moved to
  87400, still returns it.
\<close>

theorem getSession_does_not_refresh_map_ttl:
  "snd (read_at_1000 MemoryMap) =
     Some \<lparr>ses_id = ''s1'', ses_createdAt = 0, ses_lastActivity = 1000, ses_messages = []\<rparr> \<and>
   timers (fst (read_at_1000 MemoryMap)) =
     [(session_key ''s1'', 86400), (session_key ''s1'', 87400)] \<and>
   read_at_86401 MemoryMap = None \<and>
   expiries (fst (read_at_1000 RedisClient)) (session_key ''s1'') = Some 87400 \<and>
   read_at_86401 RedisClient =
     Some \<lparr>ses_id = ''s1'', ses_createdAt = 0, ses_lastActivity = 86401, ses_messages = []\<rparr>"
  using read_at_1000_map(1,2) read_at_86401_map read_at_1000_redis(2) read_at_86401_redis
  by (intro conjI)

section \<open>Properties of the streamed chunks\<close>

lemma stream_loop_emitted:
  "\<exists>cs. snd (snd (stream_loop fragments fullText n emitted)) = emitted @ cs \<and>
        list_all (\<lambda>c. \<not> cd_isComplete c \<and> n < cd_chunkIndex c) cs \<and>
        sorted_wrt (<) (map cd_chunkIndex cs)"
proof (induction fragments arbitrary: fullText n emitted)
  case Nil
  show ?case by simp
next
  case (Cons chunkText rest)
  show ?case
  proof (cases "chunkText = []")
    case True
    with Cons.IH [of fullText n emitted] show ?thesis by simp
  next
    case False
    let ?c = "\<lparr>cd_chunk = chunkText, cd_fullText = fullText @ chunkText,
               cd_chunkIndex = n + 1, cd_isComplete = False, cd_error = False\<rparr>"
    from Cons.IH [of "fullText @ chunkText" "n + 1" "emitted @ [?c]"]
    obtain cs where cs: "snd (snd (stream_loop rest (fullText @ chunkText) (n + 1) (emitted @ [?c]))) =
          (emitted @ [?c]) @ cs"
        and later: "list_all (\<lambda>c. \<not> cd_isComplete c \<and> n + 1 < cd_chunkIndex c) cs"
        and sorted: "sorted_wrt (<) (map cd_chunkIndex cs)"
      by blast
    have "snd (snd (stream_loop (chunkText # rest) fullText n emitted)) = emitted @ (?c # cs)"
      using False cs by (simp add: Let_def)
    moreover have "list_all (\<lambda>c. \<not> cd_isComplete c \<and> n < cd_chunkIndex c) (?c # cs)"
      using later by (auto simp: list_all_iff)
    moreover have "sorted_wrt (<) (map cd_chunkIndex (?c # cs))"
      using later sorted by (auto simp: list_all_iff)
    ultimately show ?thesis by blast
  qed
qed

lemma stream_loop_content:
  "content_chunks (snd (snd (stream_loop fragments [] 0 [])))"
proof -
  from stream_loop_emitted [of fragments "[]" 0 "[]"]
  obtain cs where "snd (snd (stream_loop fragments [] 0 [])) = cs"
      and "list_all (\<lambda>c. \<not> cd_isComplete c \<and> 0 < cd_chunkIndex c) cs"
      and "sorted_wrt (<) (map cd_chunkIndex cs)"
    by auto
  then show ?thesis
    by (auto simp: content_chunks_def list_all_iff)
qed

lemma word_loop_eq:
  "word_loop words i emitted =
     emitted @ map (\<lambda>j. \<lparr>cd_chunk = words ! j @ '' '',
                          cd_fullText = join '' '' (take (j + 1) words),
                          cd_chunkIndex = j, cd_isComplete = False, cd_error = False\<rparr>)
                [i..<length words]"
proof (induction words i emitted rule: word_loop.induct)
  case (1 words i emitted)
  show ?case
  proof (cases "i < length words")
    case True
    with "1.IH" show ?thesis
      by (simp add: word_loop.simps [of words i emitted] upt_conv_Cons)
  next
    case False
    then show ?thesis
      by (simp add: word_loop.simps [of words i emitted])
  qed
qed

lemma word_loop_content: "content_chunks (word_loop words 0 [])"
  by (simp add: word_loop_eq content_chunks_def list_all_iff comp_def sorted_wrt_map)

lemma streamed_snoc:
  "content_chunks cs \<Longrightarrow> cd_isComplete c \<Longrightarrow> streamed (cs @ [c])"
  by (simp add: streamed_def)

lemma content_chunks_Nil [simp]: "content_chunks []"
  by (simp add: content_chunks_def)

lemma streamed_single: "cd_isComplete c \<Longrightarrow> streamed [c]"
  by (simp add: streamed_def)

text \<open>What the generation client has emitted when its promise settles.\<close>

lemma generateStreamingResponse_chunks:
  "case snd (generateStreamingResponse svc stream prompt opts) of
     Inl msg \<Rightarrow> content_chunks (fst (generateStreamingResponse svc stream prompt opts))
   | Inr r \<Rightarrow> streamed (fst (generateStreamingResponse svc stream prompt opts))"
proof (cases "llm_isServiceAvailable svc")
  case False
  then show ?thesis
    by (simp add: generateStreamingResponse_def)
next
  case True
  obtain fragments broken where s: "stream prompt (make_generationConfig svc opts) = (fragments, broken)"
    by (cases "stream prompt (make_generationConfig svc opts)") auto
  obtain fullText chunkCount emitted where l: "stream_loop fragments [] 0 [] = (fullText, chunkCount, emitted)"
    by (cases "stream_loop fragments [] 0 []") auto
  have content: "content_chunks emitted"
    using stream_loop_content [of fragments] l by simp
  show ?thesis
  proof (cases broken)
    case None
    with True s l content show ?thesis
      by (simp add: generateStreamingResponse_def Let_def streamed_snoc)
  next
    case (Some msg)
    with True s l content show ?thesis
      by (simp add: generateStreamingResponse_def Let_def)
  qed
qed

lemma processStreamingQuery_generation:
  assumes "isReady sv w"
    and "generateQueryEmbedding (embeddings sv) (axios_post w) q = Inr qe"
    and "filter_stage sv w opts qe \<noteq> []"
  shows "processStreamingQuery sv w q opts =
     (case snd (generateStreamingRAGResponse (llm sv) (generateContentStream w) q
                  (context_stage sv w opts qe) opts) of
        Inl msg \<Rightarrow>
          (fst (generateStreamingRAGResponse (llm sv) (generateContentStream w) q
                  (context_stage sv w opts qe) opts) @
             [\<lparr>cd_chunk = streaming_errorText, cd_fullText = streaming_errorText,
               cd_chunkIndex = 0, cd_isComplete = True, cd_error = True\<rparr>],
           StreamFailure q msg)
      | Inr r \<Rightarrow>
          (fst (generateStreamingRAGResponse (llm sv) (generateContentStream w) q
                  (context_stage sv w opts qe) opts),
           StreamSuccess q (lr_text r) (context_stage sv w opts qe) (lr_chunks r)))"
  using assms
  unfolding filter_stage_def search_stage_def context_stage_def
  by (simp add: processStreamingQuery_def Let_def split_beta)

lemma processStreamingQuery_empty_context:
  assumes "isReady sv w"
    and "generateQueryEmbedding (embeddings sv) (axios_post w) q = Inr qe"
    and "filter_stage sv w opts qe = []"
  shows "processStreamingQuery sv w q opts =
     (word_loop (split_on CHR '' '' streaming_fallbackText) 0 [] @
        [\<lparr>cd_chunk = [], cd_fullText = streaming_fallbackText,
          cd_chunkIndex = length (split_on CHR '' '' streaming_fallbackText),
          cd_isComplete = True, cd_error = False\<rparr>],
      StreamSuccess q streaming_fallbackText [] None)"
  using assms
  unfolding filter_stage_def search_stage_def
  by (simp add: processStreamingQuery_def Let_def)

lemma processStreamingQuery_streamed:
  "streamed (fst (processStreamingQuery sv w q opts))"
proof (cases "isReady sv w")
  case False
  then show ?thesis
    by (simp add: processStreamingQuery_def streamed_single)
next
  case True
  show ?thesis
  proof (cases "generateQueryEmbedding (embeddings sv) (axios_post w) q")
    case (Inl msg)
    with True show ?thesis
      by (simp add: processStreamingQuery_def streamed_single)
  next
    case (Inr qe)
    show ?thesis
    proof (cases "filter_stage sv w opts qe = []")
      case empty: True
      with True Inr show ?thesis
        by (simp add: processStreamingQuery_def Let_def filter_stage_def search_stage_def
            streamed_snoc word_loop_content)
    next
      case nonempty: False
      let ?g = "generateStreamingRAGResponse (llm sv) (generateContentStream w) q
                  (context_stage sv w opts qe) opts"
      note run = processStreamingQuery_generation [OF True Inr nonempty]
      from generateStreamingResponse_chunks
             [of "llm sv" "generateContentStream w" "buildRAGPrompt q (context_stage sv w opts qe) opts" opts]
      have chunks: "case snd ?g of Inl msg \<Rightarrow> content_chunks (fst ?g) | Inr r \<Rightarrow> streamed (fst ?g)"
        unfolding generateStreamingRAGResponse_def Let_def .
      show ?thesis
      proof (cases "snd ?g")
        case failed: (Inl msg)
        with chunks run show ?thesis by (simp add: streamed_snoc)
      next
        case ok: (Inr r)
        with chunks run show ?thesis by simp
      qed
    qed
  qed
qed

section \<open>Properties of the events on the channel\<close>

lemma handleSocketMessage_events:
  "snd (handleSocketMessage e sv w now uuid st (Some d)) =
     (if \<not> isReady sv w
      then [Typing True, Typing False, Message_complete (sd_sessionId d) unavailable_response]
      else [Typing True] @
           map (emit_chunk (sd_sessionId d))
             (fst (processStreamingQuery sv w (sd_message d) socket_options)) @
           [Typing False])"
  by (simp add: handleSocketMessage_def Let_def split_beta)

lemma content_indices_append:
  "content_indices (xs @ ys) = content_indices xs @ content_indices ys"
  by (induction xs rule: content_indices.induct) simp_all

lemma chunk_indices_append:
  "chunk_indices (xs @ ys) = chunk_indices xs @ chunk_indices ys"
  by (induction xs rule: chunk_indices.induct) simp_all

lemma content_indices_emitted:
  "content_indices (map (emit_chunk sid) cs) =
     map cd_chunkIndex (filter (\<lambda>c. \<not> cd_isComplete c) cs)"
  by (induction cs) (simp_all add: emit_chunk_def)

lemma chunk_indices_emitted:
  "chunk_indices (map (emit_chunk sid) cs) = map cd_chunkIndex cs"
  by (induction cs) (simp_all add: emit_chunk_def)

lemma terminal_emitted:
  "filter is_terminal (map (emit_chunk sid) cs) = map (emit_chunk sid) (filter cd_isComplete cs)"
  by (induction cs) (simp_all add: emit_chunk_def is_terminal_def)

lemma content_chunks_filter:
  assumes "content_chunks cs"
  shows "filter cd_isComplete cs = []" and "filter (\<lambda>c. \<not> cd_isComplete c) cs = cs"
  using assms by (auto simp: content_chunks_def list_all_iff filter_empty_conv filter_id_conv)

lemma streamed_parts:
  assumes "streamed cs"
  shows "filter cd_isComplete cs = [last cs]"
    and "filter (\<lambda>c. \<not> cd_isComplete c) cs = butlast cs"
    and "sorted_wrt (<) (map cd_chunkIndex (butlast cs))"
proof -
  from assms have ne: "cs \<noteq> []" and final: "cd_isComplete (last cs)"
      and content: "content_chunks (butlast cs)"
    by (simp_all add: streamed_def)
  have split: "cs = butlast cs @ [last cs]"
    using ne by simp
  show "filter cd_isComplete cs = [last cs]"
    using content_chunks_filter(1) [OF content] final
    by (subst split) (simp del: append_butlast_last_id)
  show "filter (\<lambda>c. \<not> cd_isComplete c) cs = butlast cs"
    using content_chunks_filter(2) [OF content] final
    by (subst split) (simp del: append_butlast_last_id)
  show "sorted_wrt (<) (map cd_chunkIndex (butlast cs))"
    using content by (simp add: content_chunks_def)
qed

section \<open>Claims about the events on the channel\<close>

lemma example_stream:
  "map cd_chunkIndex
     (fst (generateStreamingRAGResponse (llm example_services)
             (generateContentStream example_world) q ctx opts)) = [1, 2, 2]"
  "\<exists>r. snd (generateStreamingRAGResponse (llm example_services)
               (generateContentStream example_world) q ctx opts) = Inr r"
  by (simp_all add: generateStreamingRAGResponse_def generateStreamingResponse_def
      example_llm_available example_world_def Let_def)

lemma failing_stream:
  "map cd_chunkIndex
     (fst (generateStreamingRAGResponse (llm example_services)
             (generateContentStream failing_world) q ctx opts)) = [1, 2]"
  "\<exists>msg. snd (generateStreamingRAGResponse (llm example_services)
                 (generateContentStream failing_world) q ctx opts) = Inl msg"
  by (simp_all add: generateStreamingRAGResponse_def generateStreamingResponse_def
      example_llm_available failing_world_def example_world_def Let_def)

lemma socket_options_stage:
  "num_or (opt_topK socket_options) 3 = 3"
  "num_or (opt_similarityThreshold socket_options) (1 / 10) = 1 / 10"
  by (simp_all add: socket_options_def no_options_def num_or_def)

lemma example_socket_indices:
  "map cd_chunkIndex (fst (processStreamingQuery example_services example_world ''what?''
      socket_options)) = [1, 2, 2]"
proof -
  let ?qe = "\<lparr>er_embedding = [1, 0], er_model = ''jina-embeddings-v2-base-en'', er_dimensions = 2\<rparr>"
  have nonempty: "filter_stage example_services example_world socket_options ?qe \<noteq> []"
    by (simp add: example_filter_stage(1) [OF socket_options_stage])
  obtain r where r: "snd (generateStreamingRAGResponse (llm example_services)
      (generateContentStream example_world) ''what?''
      (context_stage example_services example_world socket_options ?qe) socket_options) = Inr r"
    using example_stream(2) by blast
  show ?thesis
    by (simp add: processStreamingQuery_generation [OF example_ready example_embedding nonempty]
        r example_stream(1))
qed

lemma failing_socket_indices:
  "map cd_chunkIndex (fst (processStreamingQuery example_services failing_world ''what?''
      socket_options)) = [1, 2, 0]"
proof -
  let ?qe = "\<lparr>er_embedding = [1, 0], er_model = ''jina-embeddings-v2-base-en'', er_dimensions = 2\<rparr>"
  have nonempty: "filter_stage example_services failing_world socket_options ?qe \<noteq> []"
    by (simp add: example_filter_stage(2) [OF socket_options_stage])
  obtain msg where msg: "snd (generateStreamingRAGResponse (llm example_services)
      (generateContentStream failing_world) ''what?''
      (context_stage example_services failing_world socket_options ?qe) socket_options) = Inl msg"
    using failing_stream(2) by blast
  show ?thesis
    by (simp add: processStreamingQuery_generation [OF failing_ready failing_embedding nonempty]
        msg failing_stream(1))
qed

text \<open>
  C1, as stated, fails. In the example world the provider streams two fragments: the
  content chunks carry the indices 1 and 2, and the completion signal carries 2 again.
  In the world whose stream breaks after two fragments, the chunk that ends the query
  carries the index 0. In neither case are the indices of the message_chunk events
  strictly increasing.
\<close>

theorem socket_chunk_indices_counterexample:
  "chunk_indices (snd (handleSocketMessage example_env example_services example_world 7 ''u1''
      example_store (Some \<lparr>sd_sessionId = ''s1'', sd_message = ''what?''\<rparr>))) = [1, 2, 2] \<and>
   \<not> sorted_wrt (<) (chunk_indices (snd (handleSocketMessage example_env example_services
      example_world 7 ''u1'' example_store
      (Some \<lparr>sd_sessionId = ''s1'', sd_message = ''what?''\<rparr>)))) \<and>
   chunk_indices (snd (handleSocketMessage example_env example_services failing_world 7 ''u1''
      example_store (Some \<lparr>sd_sessionId = ''s1'', sd_message = ''what?''\<rparr>))) = [1, 2, 0] \<and>
   \<not> sorted_wrt (<) (chunk_indices (snd (handleSocketMessage example_env example_services
      failing_world 7 ''u1'' example_store
      (Some \<lparr>sd_sessionId = ''s1'', sd_message = ''what?''\<rparr>))))"
proof -
  have one: "chunk_indices (snd (handleSocketMessage example_env example_services example_world
      7 ''u1'' example_store (Some \<lparr>sd_sessionId = ''s1'', sd_message = ''what?''\<rparr>))) = [1, 2, 2]"
    by (simp add: handleSocketMessage_events example_ready chunk_indices_append
        chunk_indices_emitted example_socket_indices)
  have two: "chunk_indices (snd (handleSocketMessage example_env example_services failing_world
      7 ''u1'' example_store (Some \<lparr>sd_sessionId = ''s1'', sd_message = ''what?''\<rparr>))) = [1, 2, 0]"
    by (simp add: handleSocketMessage_events failing_ready chunk_indices_append
        chunk_indices_emitted failing_socket_indices)
  show ?thesis
    unfolding one two by simp
qed

lemma one_terminal_shape:
  assumes shape: "evs = pre @ t # post"
    and t: "is_terminal t"
    and pre: "list_all (\<lambda>ev. \<not> is_terminal ev) pre"
    and post: "list_all (\<lambda>ev. \<not> is_terminal ev) post"
    and none: "chunk_indices post = []"
    and sorted: "sorted_wrt (<) (content_indices evs)"
  shows "length (filter is_terminal evs) = 1 \<and>
         sorted_wrt (<) (content_indices evs) \<and>
         (\<exists>pre t post. evs = pre @ t # post \<and> is_terminal t \<and>
            list_all (\<lambda>ev. \<not> is_terminal ev) pre \<and> chunk_indices post = [])"
proof -
  have "filter is_terminal pre = []" and "filter is_terminal post = []"
    using pre post by (simp_all add: list_all_iff filter_empty_conv)
  then have "filter is_terminal evs = [t]"
    using t by (simp add: shape)
  then have "length (filter is_terminal evs) = 1"
    by simp
  moreover have "\<exists>pre t post. evs = pre @ t # post \<and> is_terminal t \<and>
      list_all (\<lambda>ev. \<not> is_terminal ev) pre \<and> chunk_indices post = []"
    using shape t pre none by blast
  ultimately show ?thesis
    using sorted by blast
qed

text \<open>
  C1, amended. For every payload, store and behaviour of the providers, the events
  that \<open>handleSocketMessage\<close> emits contain exactly one terminal event (a
  message_complete event, a message_chunk event with \<open>isComplete\<close> true, or an error
  event); no message_chunk event follows it; and the message_chunk events before it,
  which all have \<open>isComplete\<close> false, carry strictly increasing indices.
\<close>

theorem socket_stream_one_terminal_event:
  "length (filter is_terminal (snd (handleSocketMessage e sv w now uuid st data))) = 1 \<and>
   sorted_wrt (<) (content_indices (snd (handleSocketMessage e sv w now uuid st data))) \<and>
   (\<exists>pre t post. snd (handleSocketMessage e sv w now uuid st data) = pre @ t # post \<and>
      is_terminal t \<and> list_all (\<lambda>ev. \<not> is_terminal ev) pre \<and> chunk_indices post = [])"
proof (cases data)
  case None
  have shape: "snd (handleSocketMessage e sv w now uuid st data) =
      [Typing False] @ Error_event ''Failed to process message'' destructure_error # []"
    by (simp add: handleSocketMessage_def None)
  show ?thesis
  proof (rule one_terminal_shape [OF shape])
    show "sorted_wrt (<) (content_indices (snd (handleSocketMessage e sv w now uuid st data)))"
      by (simp add: shape)
  qed (simp_all add: is_terminal_def)
next
  case (Some d)
  show ?thesis
  proof (cases "isReady sv w")
    case False
    have shape: "snd (handleSocketMessage e sv w now uuid st data) =
        [Typing True, Typing False] @ Message_complete (sd_sessionId d) unavailable_response # []"
      by (simp add: handleSocketMessage_events Some False)
    show ?thesis
    proof (rule one_terminal_shape [OF shape])
      show "sorted_wrt (<) (content_indices (snd (handleSocketMessage e sv w now uuid st data)))"
        by (simp add: shape)
    qed (simp_all add: is_terminal_def)
  next
    case True
    let ?cs = "fst (processStreamingQuery sv w (sd_message d) socket_options)"
    let ?emit = "emit_chunk (sd_sessionId d)"
    have streamed: "streamed ?cs"
      by (rule processStreamingQuery_streamed)
    then have ne: "?cs \<noteq> []" and final: "cd_isComplete (last ?cs)"
      and content: "content_chunks (butlast ?cs)"
      by (simp_all add: streamed_def)
    have events: "snd (handleSocketMessage e sv w now uuid st data) =
        [Typing True] @ map ?emit ?cs @ [Typing False]"
      by (simp add: handleSocketMessage_events Some True)
    have indices: "content_indices (snd (handleSocketMessage e sv w now uuid st data)) =
        map cd_chunkIndex (butlast ?cs)"
      by (simp add: events content_indices_append content_indices_emitted
          streamed_parts(2) [OF streamed])
    have shape: "snd (handleSocketMessage e sv w now uuid st data) =
        (Typing True # map ?emit (butlast ?cs)) @ ?emit (last ?cs) # [Typing False]"
    proof -
      have "map ?emit ?cs = map ?emit (butlast ?cs) @ [?emit (last ?cs)]"
        using ne by (metis append_butlast_last_id list.simps(8,9) map_append)
      then show ?thesis by (simp add: events)
    qed
    show ?thesis
    proof (rule one_terminal_shape [OF shape])
      show "is_terminal (?emit (last ?cs))"
        using final by (simp add: is_terminal_def emit_chunk_def)
      show "list_all (\<lambda>ev. \<not> is_terminal ev) (Typing True # map ?emit (butlast ?cs))"
        using content
        by (auto simp: list_all_iff content_chunks_def is_terminal_def emit_chunk_def)
      show "list_all (\<lambda>ev. \<not> is_terminal ev) [Typing False]"
        by (simp add: is_terminal_def)
      show "chunk_indices [Typing False] = []"
        by simp
      show "sorted_wrt (<) (content_indices (snd (handleSocketMessage e sv w now uuid st data)))"
        by (simp only: indices streamed_parts(3) [OF streamed])
    qed
  qed
qed

theorem socket_stream_one_terminal_event_witness:
  "length (filter is_terminal (snd (handleSocketMessage example_env example_services example_world
      7 ''u1'' example_store (Some \<lparr>sd_sessionId = ''s1'', sd_message = ''what?''\<rparr>)))) = 1 \<and>
   sorted_wrt (<) (content_indices (snd (handleSocketMessage example_env example_services
      example_world 7 ''u1'' example_store
      (Some \<lparr>sd_sessionId = ''s1'', sd_message = ''what?''\<rparr>))))"
proof -
  note all = socket_stream_one_terminal_event [of example_env example_services example_world 7
      "''u1''" example_store "Some \<lparr>sd_sessionId = ''s1'', sd_message = ''what?''\<rparr>"]
  from all [THEN conjunct1] all [THEN conjunct2, THEN conjunct1] show ?thesis
    by (intro conjI)
qed

section \<open>Claims about the options of a query\<close>

lemma stage_values:
  assumes "num_or (opt_topK opts) (topK (rag sv)) = k"
    and "num_or (opt_similarityThreshold opts) (similarityThreshold (rag sv)) = t"
    and "num_or (opt_maxContextLength opts) (maxContextLength (rag sv)) = m"
  shows "search_stage sv w opts qe = searchSimilar w (er_embedding qe) k (opt_filter opts)"
    and "filter_stage sv w opts qe =
           filterRelevantContext (searchSimilar w (er_embedding qe) k (opt_filter opts)) t"
    and "context_stage sv w opts qe =
           prepareContext
             (filterRelevantContext (searchSimilar w (er_embedding qe) k (opt_filter opts)) t) m"
  using assms by (simp_all add: search_stage_def filter_stage_def context_stage_def)

text \<open>
  C8. Let the pipeline be ready and the query embedded. For each of \<open>topK\<close>,
  \<open>similarityThreshold\<close> and \<open>maxContextLength\<close>, take the value of the instance when
  the option is 0 (or undefined), and the option itself when it is another number. Then
  \<open>processQuery\<close> and \<open>processStreamingQuery\<close> return what the stages yield on exactly
  these numbers: \<open>searchSimilar\<close> is asked for that many results,
  \<open>filterRelevantContext\<close> gets that threshold and \<open>prepareContext\<close> that size. So an
  option 0 is replaced by the value of the instance, which is 3, 0.1 and 5 for an
  instance built without configuration.
\<close>

theorem zero_option_means_instance_value:
  assumes ready: "isReady sv w"
    and emb: "generateQueryEmbedding (embeddings sv) (axios_post w) q = Inr qe"
    and K: "(opt_topK opts = None \<or> opt_topK opts = Some 0) \<and> k = topK (rag sv) \<or>
            opt_topK opts = Some k \<and> k \<noteq> 0"
    and T: "(opt_similarityThreshold opts = None \<or> opt_similarityThreshold opts = Some 0) \<and>
              t = similarityThreshold (rag sv) \<or>
            opt_similarityThreshold opts = Some t \<and> t \<noteq> 0"
    and M: "(opt_maxContextLength opts = None \<or> opt_maxContextLength opts = Some 0) \<and>
              m = maxContextLength (rag sv) \<or>
            opt_maxContextLength opts = Some m \<and> m \<noteq> 0"
  shows
    "processQuery sv w q opts =
       (let results = searchSimilar w (er_embedding qe) k (opt_filter opts);
            relevant = filterRelevantContext results t;
            context = prepareContext relevant m
        in if relevant = [] then
             QuerySuccess q (lr_text (fallback_answer (llm sv) (generateContent w) q)) []
               \<lparr>queryEmbeddingDimensions = er_dimensions qe,
                searchResultsCount = length (documents results),
                relevantContextCount = 0, finalContextLength = None, responseLength = None\<rparr>
               (completed_steps [''embedding_generation'', ''vector_search'', ''context_filtering''])
           else
             (case generateRAGResponse (llm sv) (generateContent w) q context opts of
                Inl msg \<Rightarrow>
                  QueryFailure q msg
                    (FallbackObject (fallback_answer (llm sv) (generateContent w) q))
              | Inr r \<Rightarrow>
                  QuerySuccess q (lr_text r) context
                    \<lparr>queryEmbeddingDimensions = er_dimensions qe,
                     searchResultsCount = length (documents results),
                     relevantContextCount = length relevant,
                     finalContextLength = Some (length context),
                     responseLength = Some (length (lr_text r))\<rparr>
                    (completed_steps
                       [''embedding_generation'', ''vector_search'', ''context_filtering'',
                        ''context_preparation'', ''llm_generation'']))) \<and>
     processStreamingQuery sv w q opts =
       (let results = searchSimilar w (er_embedding qe) k (opt_filter opts);
            relevant = filterRelevantContext results t;
            context = prepareContext relevant m;
            streaming = generateStreamingRAGResponse (llm sv) (generateContentStream w) q context opts
        in if relevant = [] then
             (word_loop (split_on CHR '' '' streaming_fallbackText) 0 [] @
                [\<lparr>cd_chunk = [], cd_fullText = streaming_fallbackText,
                  cd_chunkIndex = length (split_on CHR '' '' streaming_fallbackText),
                  cd_isComplete = True, cd_error = False\<rparr>],
              StreamSuccess q streaming_fallbackText [] None)
           else
             (case snd streaming of
                Inl msg \<Rightarrow>
                  (fst streaming @
                     [\<lparr>cd_chunk = streaming_errorText, cd_fullText = streaming_errorText,
                       cd_chunkIndex = 0, cd_isComplete = True, cd_error = True\<rparr>],
                   StreamFailure q msg)
              | Inr r \<Rightarrow> (fst streaming, StreamSuccess q (lr_text r) context (lr_chunks r)))) \<and>
     topK (new_ragPipeline None None) = 3 \<and>
     similarityThreshold (new_ragPipeline None None) = 1 / 10 \<and>
     maxContextLength (new_ragPipeline None None) = 5"
proof -
  have k: "num_or (opt_topK opts) (topK (rag sv)) = k"
    using K by (auto simp: num_or_def)
  have t: "num_or (opt_similarityThreshold opts) (similarityThreshold (rag sv)) = t"
    using T by (auto simp: num_or_def)
  have m: "num_or (opt_maxContextLength opts) (maxContextLength (rag sv)) = m"
    using M by (auto simp: num_or_def)
  note stages = stage_values [OF k t m, of w qe]
  let ?results = "searchSimilar w (er_embedding qe) k (opt_filter opts)"
  let ?relevant = "filterRelevantContext ?results t"
  let ?prepared = "prepareContext ?relevant m"
  have defaults: "topK (new_ragPipeline None None) = 3 \<and>
      similarityThreshold (new_ragPipeline None None) = 1 / 10 \<and>
      maxContextLength (new_ragPipeline None None) = 5"
    by (simp add: new_ragPipeline_def num_or_def)
  show ?thesis
  proof (cases "?relevant = []")
    case True
    then have empty: "filter_stage sv w opts qe = []"
      by (simp add: stages)
    have "processQuery sv w q opts =
        QuerySuccess q (lr_text (fallback_answer (llm sv) (generateContent w) q)) []
          \<lparr>queryEmbeddingDimensions = er_dimensions qe,
           searchResultsCount = length (documents ?results),
           relevantContextCount = 0, finalContextLength = None, responseLength = None\<rparr>
          (completed_steps [''embedding_generation'', ''vector_search'', ''context_filtering''])"
      using processQuery_empty_context [OF ready emb empty] by (simp only: stages)
    moreover note processStreamingQuery_empty_context [OF ready emb empty]
    ultimately show ?thesis
      using True defaults unfolding Let_def by simp
  next
    case False
    then have nonempty: "filter_stage sv w opts qe \<noteq> []"
      by (simp add: stages)
    have streaming: "processStreamingQuery sv w q opts =
        (case snd (generateStreamingRAGResponse (llm sv) (generateContentStream w) q ?prepared opts) of
           Inl msg \<Rightarrow>
             (fst (generateStreamingRAGResponse (llm sv) (generateContentStream w) q ?prepared opts) @
                [\<lparr>cd_chunk = streaming_errorText, cd_fullText = streaming_errorText,
                  cd_chunkIndex = 0, cd_isComplete = True, cd_error = True\<rparr>],
              StreamFailure q msg)
         | Inr r \<Rightarrow>
             (fst (generateStreamingRAGResponse (llm sv) (generateContentStream w) q ?prepared opts),
              StreamSuccess q (lr_text r) ?prepared (lr_chunks r)))"
      using processStreamingQuery_generation [OF ready emb nonempty] by (simp only: stages)
    have query: "processQuery sv w q opts =
        (case generateRAGResponse (llm sv) (generateContent w) q ?prepared opts of
           Inl msg \<Rightarrow>
             QueryFailure q msg (FallbackObject (fallback_answer (llm sv) (generateContent w) q))
         | Inr r \<Rightarrow>
             QuerySuccess q (lr_text r) ?prepared
               \<lparr>queryEmbeddingDimensions = er_dimensions qe,
                searchResultsCount = length (documents ?results),
                relevantContextCount = length ?relevant,
                finalContextLength = Some (length ?prepared),
                responseLength = Some (length (lr_text r))\<rparr>
               (completed_steps
                  [''embedding_generation'', ''vector_search'', ''context_filtering'',
                   ''context_preparation'', ''llm_generation'']))"
    proof (cases "generateRAGResponse (llm sv) (generateContent w) q ?prepared opts")
      case (Inl msg)
      then have "generateRAGResponse (llm sv) (generateContent w) q (context_stage sv w opts qe) opts
          = Inl msg"
        by (simp only: stages)
      from processQuery_generation_fails [OF ready emb nonempty this] Inl show ?thesis
        by simp
    next
      case (Inr r)
      then have "generateRAGResponse (llm sv) (generateContent w) q (context_stage sv w opts qe) opts
          = Inr r"
        by (simp only: stages)
      from processQuery_generation_succeeds [OF ready emb nonempty this] Inr show ?thesis
        by (simp add: stages)
    qed
    show ?thesis
      using False defaults unfolding Let_def
      by (simp only: query streaming if_False simp_thms)
  qed
qed

lemma example_filter_zero: "length (filterRelevantContext example_results 0) = 3"
  by (simp add: filterRelevantContext_def filter_loop_eq example_results_def
      derived_similarity_def candidate_at_def nth_undef_def num_or_def upt_conv_Cons)

lemma example_prepare:
  "length (prepareContext [candidate_at example_results 1, candidate_at example_results 0] 5) = 2"
  "prepareContext [candidate_at example_results 1, candidate_at example_results 0] 0 = []"
  by (simp_all add: prepareContext_def Let_def)

theorem zero_option_means_instance_value_witness:
  "length (qr_context (processQuery example_services example_world ''what?'' zero_options)) = 2 \<and>
   length (stream_context
             (snd (processStreamingQuery example_services example_world ''what?'' zero_options))) = 2 \<and>
   map cd_chunkIndex
     (fst (processStreamingQuery example_services example_world ''what?'' zero_options)) = [1, 2, 2] \<and>
   searchSimilar example_world [1, 0] 0 None = no_results \<and>
   length (filterRelevantContext example_results 0) = 3 \<and>
   prepareContext (filterRelevantContext example_results (1 / 10)) 0 = []"
proof -
  let ?prepared = "prepareContext [candidate_at example_results 1, candidate_at example_results 0] 5"
  have K: "(opt_topK zero_options = None \<or> opt_topK zero_options = Some 0) \<and>
             3 = topK (rag example_services) \<or>
           opt_topK zero_options = Some 3 \<and> (3 :: real) \<noteq> 0"
    by (simp add: zero_options_def example_instance_values)
  have T: "(opt_similarityThreshold zero_options = None \<or>
              opt_similarityThreshold zero_options = Some 0) \<and>
             1 / 10 = similarityThreshold (rag example_services) \<or>
           opt_similarityThreshold zero_options = Some (1 / 10) \<and> (1 / 10 :: real) \<noteq> 0"
    by (simp add: zero_options_def example_instance_values)
  have M: "(opt_maxContextLength zero_options = None \<or>
              opt_maxContextLength zero_options = Some 0) \<and>
             5 = maxContextLength (rag example_services) \<or>
           opt_maxContextLength zero_options = Some 5 \<and> (5 :: real) \<noteq> 0"
    by (simp add: zero_options_def example_instance_values)
  let ?qe = "\<lparr>er_embedding = [1, 0], er_model = ''jina-embeddings-v2-base-en'', er_dimensions = 2\<rparr>"
  have search: "searchSimilar example_world (er_embedding ?qe) 3 (opt_filter zero_options) =
      example_results"
    by (simp add: example_world_def)
  obtain r where r: "generateRAGResponse (llm example_services) (generateContent example_world)
      ''what?'' ?prepared zero_options = Inr r"
    using example_generation by blast
  obtain s where s: "snd (generateStreamingRAGResponse (llm example_services)
      (generateContentStream example_world) ''what?'' ?prepared zero_options) = Inr s"
    using example_stream(2) by blast
  note both = zero_option_means_instance_value [OF example_ready example_embedding K T M,
      unfolded Let_def search example_filter r s]
  have query: "length (qr_context
      (processQuery example_services example_world ''what?'' zero_options)) = 2"
    by (simp only: both [THEN conjunct1] list.distinct if_False sum.case qr_context_def
        queryResult.case example_prepare(1))
  have streaming:
    "length (stream_context
       (snd (processStreamingQuery example_services example_world ''what?'' zero_options))) = 2"
    "map cd_chunkIndex
       (fst (processStreamingQuery example_services example_world ''what?'' zero_options)) = [1, 2, 2]"
    by (simp_all only: both [THEN conjunct2, THEN conjunct1] list.distinct if_False sum.case
        stream_context_def streamResult.case example_prepare(1) example_stream(1) fst_conv snd_conv)
  have literal: "searchSimilar example_world [1, 0] 0 None = no_results"
    by (simp add: example_world_def)
  show ?thesis
    using query streaming literal example_filter_zero
    by (simp only: example_filter example_prepare(2) simp_thms)
qed


end
